theory Spec2Isabelle
  imports Main "HOL-Library.Word"
begin

section \<open>PhantomPad: confidential crowdfunding over encrypted cUSDC\<close>

text \<open>
  A shallow embedding of the contract \<open>PhantomPad\<close>: its storage, its three state-changing
  functions \<open>createCampaign\<close>, \<open>onConfidentialTransferReceived\<close> and \<open>endCampaign\<close>, and the
  view \<open>isCampaignActive\<close>. Solidity's value types are machine words; a mapping is a total
  function whose unwritten slots hold the default value; a \<open>require\<close> that fails is an error
  value carrying the message of the source.
\<close>

subsection \<open>Value types\<close>

type_synonym address = "160 word"
type_synonym uint256 = "256 word"
type_synonym uint64 = "64 word"
type_synonym bytes = "8 word list"

text \<open>
  A function body returns its outcome together with the storage as it stands at the point
  of exit. \<open>Error msg\<close> is a failed \<open>require(_, msg)\<close>, \<open>Panic code\<close> a failed checked
  arithmetic operation (code \<open>0x11\<close>: overflow), \<open>Revert\<close> a revert without a message (a
  failed \<open>abi.decode\<close>) and \<open>CustomError\<close> whatever a called contract reverts with.
\<close>

datatype error = Error string | Panic nat | Revert | CustomError string

subsection \<open>Ciphertext handles\<close>

text \<open>
  Modelled from the spec: the types \<open>euint64\<close> and \<open>ebool\<close> of the library \<open>FHE.sol\<close>,
  which is an external dependency and not among the sources. A ciphertext handle is an
  opaque reference to an encrypted unsigned 64-bit value (or an encrypted boolean). The
  model pairs the identifier of the handle (a \<open>bytes32\<close>) with the plaintext it encrypts.
  The contract's functions never read the plaintext: the co-processor does when it adds, and
  \<open>plain64\<close> and \<open>plainB\<close>, the off-chain decryption, do. The default value of the type is
  the uninitialised handle.
\<close>

type_synonym handle = "256 word"

datatype euint64 = Uninit64 | Enc64 handle uint64

datatype ebool = UninitB | EncB handle bool

fun handle64 :: "euint64 \<Rightarrow> handle" where
  "handle64 Uninit64 = 0"
| "handle64 (Enc64 h v) = h"

fun handleB :: "ebool \<Rightarrow> handle" where
  "handleB UninitB = 0"
| "handleB (EncB h b) = h"

text \<open>Decryption; an uninitialised handle stands for zero, as homomorphic addition reads it.\<close>

fun plain64 :: "euint64 \<Rightarrow> uint64" where
  "plain64 Uninit64 = 0"
| "plain64 (Enc64 h v) = v"

fun plainB :: "ebool \<Rightarrow> bool" where
  "plainB UninitB = False"
| "plainB (EncB h b) = b"

subsection \<open>Storage\<close>

record Campaign =
  name :: string
  target :: euint64
  totalRaised :: euint64
  deadline :: uint256
  creator :: address
  ended :: bool

datatype event =
    CampaignCreated uint256 string uint64 uint256 address
  | Contributed uint256 address euint64
  | CampaignEnded uint256 address euint64

text \<open>
  The state of the chain as far as the contract can see it: the contract's own storage
  (\<open>paymentToken\<close>, \<open>campaignCount\<close>, \<open>campaigns\<close> for \<open>_campaigns\<close>, \<open>contributions\<close> for
  \<open>_contributions\<close>), its own address \<open>self\<close> (\<open>address(this)\<close>), the log of emitted events,
  the co-processor's next unused handle and its permission table \<open>acl\<close> (handle, viewer), and
  the token's per-account ciphertext balances.
\<close>

record world =
  paymentToken :: address
  self :: address
  campaignCount :: uint256
  campaigns :: "uint256 \<Rightarrow> Campaign"
  contributions :: "uint256 \<Rightarrow> address \<Rightarrow> euint64"
  events :: "event list"
  nextHandle :: handle
  acl :: "(handle \<times> address) set"
  balances :: "address \<Rightarrow> euint64"

text \<open>The transaction context: \<open>msg.sender\<close> and \<open>block.timestamp\<close>.\<close>

record env =
  msg_sender :: address
  block_timestamp :: uint256

type_synonym 'a exec = "world \<Rightarrow> (error + 'a) \<times> world"

text \<open>The default value of the struct, which every unwritten slot of \<open>_campaigns\<close> holds.\<close>

definition no_campaign :: Campaign where
  "no_campaign = \<lparr>name = [], target = Uninit64, totalRaised = Uninit64, deadline = 0,
                   creator = 0, ended = False\<rparr>"

text \<open>The storage right after the constructor has run with \<open>token\<close>, deployed at \<open>this\<close>.\<close>

definition deployed :: "address \<Rightarrow> address \<Rightarrow> world" where
  "deployed token this =
     \<lparr>paymentToken = token, self = this, campaignCount = 0,
      campaigns = (\<lambda>_. no_campaign), contributions = (\<lambda>_ _. Uninit64), events = [],
      nextHandle = 1, acl = {}, balances = (\<lambda>_. Uninit64)\<rparr>"

subsection \<open>The co-processor's primitives\<close>

text \<open>
  The library \<open>FHE.sol\<close> is not among the sources; its primitives follow the spec's list:
  encrypt a plaintext into a handle, add two handles homomorphically, construct an encrypted
  boolean, grant decrypt permission on a handle to a viewer, and check whether a handle is
  initialised. Handles are numbered in the order they are produced; the numbering is the
  model's own and no property below depends on it.
\<close>

text \<open>Modelled from the spec: \<open>FHE.asEuint64\<close>, encrypt a plaintext into a new handle.\<close>

definition asEuint64 :: "uint64 \<Rightarrow> world \<Rightarrow> euint64 \<times> world" where
  "asEuint64 v s = (Enc64 (nextHandle s) v, s\<lparr>nextHandle := (nextHandle s + 1)\<rparr>)"

text \<open>Modelled from the spec: \<open>FHE.asEbool\<close>, construct an encrypted boolean.\<close>

definition asEbool :: "bool \<Rightarrow> world \<Rightarrow> ebool \<times> world" where
  "asEbool b s = (EncB (nextHandle s) b, s\<lparr>nextHandle := (nextHandle s + 1)\<rparr>)"

text \<open>
  Modelled from the spec: \<open>FHE.add\<close>, a new handle for the sum of the two operands. The
  operands are unsigned 64-bit values and so is the sum: it wraps at \<open>2 ^ 64\<close>.
\<close>

definition fhe_add :: "euint64 \<Rightarrow> euint64 \<Rightarrow> world \<Rightarrow> euint64 \<times> world" where
  "fhe_add a b s =
     (Enc64 (nextHandle s) (plain64 a + plain64 b), s\<lparr>nextHandle := (nextHandle s + 1)\<rparr>)"

text \<open>Modelled from the spec: \<open>FHE.isInitialized\<close>, whether a handle is initialised.\<close>

definition isInitialized :: "euint64 \<Rightarrow> bool" where
  "isInitialized h = (h \<noteq> Uninit64)"

text \<open>
  Modelled from the spec: \<open>FHE.allow\<close> and \<open>FHE.allowThis\<close>, grant decrypt permission on a
  handle to a viewer, or to this contract. Granting adds a pair to the permission table and
  removes none; \<open>isAllowed\<close> reads the table.
\<close>

definition allow :: "handle \<Rightarrow> address \<Rightarrow> world \<Rightarrow> world" where
  "allow h viewer s = s\<lparr>acl := insert (h, viewer) (acl s)\<rparr>"

definition allowThis :: "handle \<Rightarrow> world \<Rightarrow> world" where
  "allowThis h s = allow h (self s) s"

definition isAllowed :: "world \<Rightarrow> handle \<Rightarrow> address \<Rightarrow> bool" where
  "isAllowed s h viewer = ((h, viewer) \<in> acl s)"

subsection \<open>Decoding the attached data\<close>

text \<open>
  \<open>abi.decode(data, (uint256))\<close>: the first 32 bytes, big-endian; it reverts when there are
  fewer than 32 bytes. \<open>abi_encode_uint256\<close> is the encoding the tests attach,
  \<open>AbiCoder.encode(["uint256"], [1])\<close>: 32 bytes, big-endian.
\<close>

definition abi_decode_uint256 :: "bytes \<Rightarrow> uint256 option" where
  "abi_decode_uint256 data =
     (if length data < 32 then None
      else Some (foldl (\<lambda>acc b. push_bit 8 acc + ucast b) 0 (take 32 data)))"

definition abi_encode_uint256 :: "uint256 \<Rightarrow> bytes" where
  "abi_encode_uint256 v = map (\<lambda>i. ucast (drop_bit (8 * (31 - i)) v)) [0..<32]"

subsection \<open>The token's transfer\<close>

text \<open>
  \<open>paymentToken.confidentialTransfer(to, amount)\<close> is a call into another contract. It is a
  parameter of \<open>endCampaign\<close>: a function of the caller, the recipient, the amount and the
  state of the chain at the moment of the call, so that it may also read or call back into
  this contract.
\<close>

type_synonym ledger = "address \<Rightarrow> address \<Rightarrow> euint64 \<Rightarrow> euint64 exec"

subsection \<open>The contract's functions\<close>

definition createCampaign :: "env \<Rightarrow> string \<Rightarrow> uint64 \<Rightarrow> uint256 \<Rightarrow> uint256 exec" where
  "createCampaign e nm tgt dl s =
     (if \<not> length nm > 0 then (Inl (Error ''Name required''), s)
      else if \<not> tgt > 0 then (Inl (Error ''Target required''), s)
      else if \<not> dl > block_timestamp e then (Inl (Error ''Deadline must be in the future''), s)
      else if campaignCount s = - 1 then (Inl (Panic 17), s)
      else
        let s1 = s\<lparr>campaignCount := campaignCount s + 1\<rparr>;
            campaignId = campaignCount s1;
            (encryptedTarget, s2) = asEuint64 tgt s1;
            (initialRaised, s3) = asEuint64 0 s2;
            campaign = (campaigns s3 campaignId)
              \<lparr>name := nm, target := encryptedTarget, totalRaised := initialRaised,
               deadline := dl, creator := msg_sender e, ended := False\<rparr>;
            s4 = s3\<lparr>campaigns := (campaigns s3)(campaignId := campaign)\<rparr>;
            s5 = allowThis (handle64 encryptedTarget) s4;
            s6 = allow (handle64 encryptedTarget) (msg_sender e) s5;
            s7 = allowThis (handle64 initialRaised) s6;
            s8 = allow (handle64 initialRaised) (msg_sender e) s7;
            s9 = s8\<lparr>events := events s8 @ [CampaignCreated campaignId nm tgt dl (msg_sender e)]\<rparr>
        in (Inr campaignId, s9))"

text \<open>The storage writes of an accepted contribution, lines 82 to 102 of the source.\<close>

definition contribute :: "env \<Rightarrow> uint256 \<Rightarrow> address \<Rightarrow> euint64 \<Rightarrow> world \<Rightarrow> ebool \<times> world" where
  "contribute e campaignId from amount s =
     (let campaign = campaigns s campaignId;
          (updatedTotal, s1) = fhe_add (totalRaised campaign) amount s;
          s2 = s1\<lparr>campaigns := (campaigns s1)(campaignId := campaign\<lparr>totalRaised := updatedTotal\<rparr>)\<rparr>;
          s3 = allowThis (handle64 updatedTotal) s2;
          s4 = allow (handle64 updatedTotal) (creator (campaigns s3 campaignId)) s3;
          s5 = allow (handle64 updatedTotal) from s4;
          currentContribution = contributions s5 campaignId from;
          (currentContribution, s6) =
             (if \<not> isInitialized currentContribution then asEuint64 0 s5
              else (currentContribution, s5));
          (updatedContribution, s7) = fhe_add currentContribution amount s6;
          s8 = s7\<lparr>contributions :=
                  (contributions s7)(campaignId := (contributions s7 campaignId)(from := updatedContribution))\<rparr>;
          s9 = allowThis (handle64 updatedContribution) s8;
          s10 = allow (handle64 updatedContribution) from s9;
          s11 = s10\<lparr>events := events s10 @ [Contributed campaignId from amount]\<rparr>;
          (accepted, s12) = asEbool True s11;
          s13 = allowThis (handleB accepted) s12;
          s14 = allow (handleB accepted) (msg_sender e) s13
      in (accepted, s14))"

definition onConfidentialTransferReceived ::
  "env \<Rightarrow> address \<Rightarrow> address \<Rightarrow> euint64 \<Rightarrow> bytes \<Rightarrow> ebool exec" where
  "onConfidentialTransferReceived e operator from amount data s =
     (if \<not> msg_sender e = paymentToken s then (Inl (Error ''Unsupported token''), s)
      else case abi_decode_uint256 data of
        None \<Rightarrow> (Inl Revert, s)
      | Some campaignId \<Rightarrow>
          let campaign = campaigns s campaignId in
          if \<not> creator campaign \<noteq> 0 then (Inl (Error ''Campaign not found''), s)
          else if \<not> \<not> ended campaign then (Inl (Error ''Campaign already ended''), s)
          else if \<not> block_timestamp e \<le> deadline campaign then (Inl (Error ''Campaign expired''), s)
          else let (accepted, s') = contribute e campaignId from amount s in (Inr accepted, s'))"

text \<open>
  The storage writes of \<open>endCampaign\<close> that come before the call of the token, lines 114
  to 120: the state of the chain at the moment \<open>confidentialTransfer\<close> is entered.
\<close>

definition settle :: "env \<Rightarrow> uint256 \<Rightarrow> world \<Rightarrow> euint64 \<times> world" where
  "settle e campaignId s =
     (let s1 = s\<lparr>campaigns := (campaigns s)(campaignId := (campaigns s campaignId)\<lparr>ended := True\<rparr>)\<rparr>;
          payout = totalRaised (campaigns s1 campaignId);
          s2 = allowThis (handle64 payout) s1;
          s3 = allow (handle64 payout) (msg_sender e) s2;
          (zero, s4) = asEuint64 0 s3;
          s5 = s4\<lparr>campaigns := (campaigns s4)(campaignId := (campaigns s4 campaignId)\<lparr>totalRaised := zero\<rparr>)\<rparr>
      in (payout, s5))"

definition endCampaign :: "ledger \<Rightarrow> env \<Rightarrow> uint256 \<Rightarrow> euint64 exec" where
  "endCampaign token e campaignId s =
     (let campaign = campaigns s campaignId in
      if \<not> creator campaign \<noteq> 0 then (Inl (Error ''Campaign not found''), s)
      else if \<not> msg_sender e = creator campaign then (Inl (Error ''Only creator''), s)
      else if \<not> \<not> ended campaign then (Inl (Error ''Campaign already ended''), s)
      else
        let (payout, s5) = settle e campaignId s in
        case token (self s5) (msg_sender e) payout s5 of
          (Inl err, s6) \<Rightarrow> (Inl err, s6)
        | (Inr payout', s6) \<Rightarrow>
            (Inr payout', s6\<lparr>events := events s6 @ [CampaignEnded campaignId (msg_sender e) payout']\<rparr>))"

definition isCampaignActive :: "env \<Rightarrow> uint256 \<Rightarrow> world \<Rightarrow> bool" where
  "isCampaignActive e campaignId s =
     (let campaign = campaigns s campaignId in
      creator campaign \<noteq> 0 \<and> \<not> ended campaign \<and> block_timestamp e \<le> deadline campaign)"

subsection \<open>Transactions\<close>

text \<open>
  A call that fails reverts: the chain keeps the state it had before the call. A call that
  returns commits the state at its exit.
\<close>

definition transact :: "'a exec \<Rightarrow> 'a exec" where
  "transact f s = (case f s of (Inl err, _) \<Rightarrow> (Inl err, s) | (Inr v, s') \<Rightarrow> (Inr v, s'))"

datatype call =
    CreateCampaign env string uint64 uint256
  | OnConfidentialTransferReceived env address address euint64 bytes
  | EndCampaign env uint256

datatype outcome = Failed error | Created uint256 | Accepted ebool | Paid euint64

fun perform :: "ledger \<Rightarrow> call \<Rightarrow> world \<Rightarrow> outcome \<times> world" where
  "perform token (CreateCampaign e nm tgt dl) s =
     (case transact (createCampaign e nm tgt dl) s of
        (Inl err, s') \<Rightarrow> (Failed err, s') | (Inr cid, s') \<Rightarrow> (Created cid, s'))"
| "perform token (OnConfidentialTransferReceived e operator from amount data) s =
     (case transact (onConfidentialTransferReceived e operator from amount data) s of
        (Inl err, s') \<Rightarrow> (Failed err, s') | (Inr b, s') \<Rightarrow> (Accepted b, s'))"
| "perform token (EndCampaign e campaignId) s =
     (case transact (endCampaign token e campaignId) s of
        (Inl err, s') \<Rightarrow> (Failed err, s') | (Inr p, s') \<Rightarrow> (Paid p, s'))"

text \<open>The state after a sequence of calls, and the outcomes of the calls in order.\<close>

fun run :: "ledger \<Rightarrow> call list \<Rightarrow> world \<Rightarrow> world" where
  "run token [] s = s"
| "run token (c # cs) s = run token cs (snd (perform token c s))"

fun outcomes :: "ledger \<Rightarrow> call list \<Rightarrow> world \<Rightarrow> outcome list" where
  "outcomes token [] s = []"
| "outcomes token (c # cs) s =
     fst (perform token c s) # outcomes token cs (snd (perform token c s))"

subsection \<open>Accepted contributions of a sequence of calls\<close>

text \<open>
  What an accepted callback contributed: the decoded campaign id, the contributor and the
  amount behind the ciphertext. Every other call, and every failed one, contributes nothing.
\<close>

fun contribution_of :: "call \<Rightarrow> outcome \<Rightarrow> (uint256 \<times> address \<times> uint64) option" where
  "contribution_of (OnConfidentialTransferReceived e operator from amount data) (Accepted b) =
     (case abi_decode_uint256 data of
        None \<Rightarrow> None
      | Some campaignId \<Rightarrow> Some (campaignId, from, plain64 amount))"
| "contribution_of _ _ = None"

fun accepted :: "ledger \<Rightarrow> call list \<Rightarrow> world \<Rightarrow> (uint256 \<times> address \<times> uint64) list" where
  "accepted token [] s = []"
| "accepted token (c # cs) s =
     (case contribution_of c (fst (perform token c s)) of None \<Rightarrow> [] | Some x \<Rightarrow> [x])
     @ accepted token cs (snd (perform token c s))"

definition raised_for :: "uint256 \<Rightarrow> (uint256 \<times> address \<times> uint64) list \<Rightarrow> uint64" where
  "raised_for campaignId xs =
     sum_list (map (\<lambda>(c, a, v). v) (filter (\<lambda>(c, a, v). c = campaignId) xs))"

definition contributed_by ::
  "uint256 \<Rightarrow> address \<Rightarrow> (uint256 \<times> address \<times> uint64) list \<Rightarrow> uint64" where
  "contributed_by campaignId who xs =
     sum_list (map (\<lambda>(c, a, v). v) (filter (\<lambda>(c, a, v). c = campaignId \<and> a = who) xs))"

text \<open>The same sum over the natural numbers, where nothing wraps.\<close>

definition raised_for_nat :: "uint256 \<Rightarrow> (uint256 \<times> address \<times> uint64) list \<Rightarrow> nat" where
  "raised_for_nat campaignId xs =
     sum_list (map (\<lambda>(c, a, v). unat v) (filter (\<lambda>(c, a, v). c = campaignId) xs))"

definition contributed_by_nat ::
  "uint256 \<Rightarrow> address \<Rightarrow> (uint256 \<times> address \<times> uint64) list \<Rightarrow> nat" where
  "contributed_by_nat campaignId who xs =
     sum_list (map (\<lambda>(c, a, v). unat v) (filter (\<lambda>(c, a, v). c = campaignId \<and> a = who) xs))"

text \<open>The campaign ids returned by the successful creations, in order.\<close>

fun created_ids :: "outcome list \<Rightarrow> uint256 list" where
  "created_ids [] = []"
| "created_ids (Created campaignId # os) = campaignId # created_ids os"
| "created_ids (_ # os) = created_ids os"

text \<open>Whether a call was a settlement of the campaign, and how many of a sequence were.\<close>

fun settled :: "uint256 \<Rightarrow> call \<Rightarrow> outcome \<Rightarrow> bool" where
  "settled campaignId (EndCampaign e campaignId') (Paid p) = (campaignId' = campaignId)"
| "settled campaignId _ _ = False"

fun settlements :: "ledger \<Rightarrow> uint256 \<Rightarrow> call list \<Rightarrow> world \<Rightarrow> nat" where
  "settlements token campaignId [] s = 0"
| "settlements token campaignId (c # cs) s =
     (if settled campaignId c (fst (perform token c s)) then 1 else 0)
     + settlements token campaignId cs (snd (perform token c s))"

text \<open>No slot of \<open>_campaigns\<close> beyond the counter has been written.\<close>

definition unused_above :: "world \<Rightarrow> bool" where
  "unused_above s = (\<forall>campaignId. campaignCount s < campaignId \<longrightarrow> campaigns s campaignId = no_campaign)"

subsection \<open>Assumptions on the token, and a token to run\<close>

text \<open>
  \<open>storage_kept\<close>: the token's transfer does not write this contract's storage (it does not
  call back into a state-changing function of this contract with success) and revokes no
  permission.
\<close>

definition storage_kept :: "ledger \<Rightarrow> bool" where
  "storage_kept token =
     (\<forall>caller to amount s.
        campaignCount (snd (token caller to amount s)) = campaignCount s \<and>
        campaigns (snd (token caller to amount s)) = campaigns s \<and>
        contributions (snd (token caller to amount s)) = contributions s \<and>
        acl s \<subseteq> acl (snd (token caller to amount s)))"

text \<open>
  A token whose transfer always reverts, as a call into another contract may: it writes
  nothing and fails with an error of its own.
\<close>

definition reverting_token :: ledger where
  "reverting_token caller to amount s = (Inl (CustomError ''transfer reverted''), s)"

text \<open>
  Modelled from the spec: \<open>ConfidentialUSDC.sol\<close>, the token, is not among the sources. Its
  plain encrypted transfer takes the recipient and a ciphertext amount, moves the amount
  between the per-account ciphertext balances and returns the handle of the amount actually
  transferred. The spec does not say what happens when the sender's balance is too small;
  here nothing is moved then.
\<close>

definition confidentialTransfer :: ledger where
  "confidentialTransfer caller to amount s =
     (let moved = (if plain64 amount \<le> plain64 (balances s caller) then plain64 amount else 0);
          (transferred, s1) = asEuint64 moved s;
          (fromBalance, s2) = asEuint64 (plain64 (balances s1 caller) - moved) s1;
          s3 = s2\<lparr>balances := (balances s2)(caller := fromBalance)\<rparr>;
          (toBalance, s4) = fhe_add (balances s3 to) transferred s3;
          s5 = s4\<lparr>balances := (balances s4)(to := toBalance)\<rparr>;
          s6 = allow (handle64 transferred) to s5
      in (Inr transferred, s6))"

subsection \<open>The scenario of the tests\<close>

text \<open>
  The calls of the repository's tests, with the token deployed at address 7, this contract
  at address 9, the creator at address 1 and the contributor at address 2: a campaign
  \<open>Test Launch\<close> with target 1000 and a deadline one hour ahead, a callback of the token
  for a contribution of 750 with the attached data \<open>abi.encode(1)\<close>, and the creator's
  \<open>endCampaign(1)\<close>.
\<close>

definition launch :: call where
  "launch = CreateCampaign \<lparr>msg_sender = 1, block_timestamp = 100\<rparr> ''Test Launch'' 1000 3700"

definition pledge :: call where
  "pledge = OnConfidentialTransferReceived \<lparr>msg_sender = 7, block_timestamp = 200\<rparr> 2 2
              (Enc64 50 750) (abi_encode_uint256 1)"

definition close :: call where
  "close = EndCampaign \<lparr>msg_sender = 1, block_timestamp = 300\<rparr> 1"

text \<open>The states of the chain after each of these calls, made in this order.\<close>

definition after_launch :: world where
  "after_launch = snd (perform confidentialTransfer launch (deployed 7 9))"

definition after_pledge :: world where
  "after_pledge = snd (perform confidentialTransfer pledge after_launch)"

definition after_close :: world where
  "after_close = snd (perform confidentialTransfer close after_pledge)"

text \<open>A second contribution of 750 by the same contributor, after the first.\<close>

definition after_second_pledge :: world where
  "after_second_pledge = snd (perform confidentialTransfer pledge after_pledge)"

text \<open>
  Two callbacks of the token for campaign 1 made right after its creation, with amounts
  \<open>2 ^ 64 - 1\<close> and 1, and the states after them.
\<close>

definition pledge_max :: call where
  "pledge_max = OnConfidentialTransferReceived \<lparr>msg_sender = 7, block_timestamp = 200\<rparr> 2 2
                  (Enc64 60 18446744073709551615) (abi_encode_uint256 1)"

definition pledge_one :: call where
  "pledge_one = OnConfidentialTransferReceived \<lparr>msg_sender = 7, block_timestamp = 210\<rparr> 2 2
                  (Enc64 61 1) (abi_encode_uint256 1)"

definition after_max :: world where
  "after_max = snd (perform confidentialTransfer pledge_max after_launch)"

definition after_wrap :: world where
  "after_wrap = snd (perform confidentialTransfer pledge_one after_max)"

text \<open>
  The state after the first contribution with the permission table emptied, to see which
  permissions a call adds by itself.
\<close>

definition unshared :: world where
  "unshared = after_pledge\<lparr>acl := {}\<rparr>"

section \<open>Properties\<close>

subsection \<open>Effects of the primitives and of the function bodies\<close>

lemmas fhe_defs = fhe_add_def asEuint64_def asEbool_def allow_def allowThis_def isInitialized_def

lemma contribute_fields:
  "campaignCount (snd (contribute e cid from amt s)) = campaignCount s"
  "paymentToken (snd (contribute e cid from amt s)) = paymentToken s"
  "self (snd (contribute e cid from amt s)) = self s"
  "balances (snd (contribute e cid from amt s)) = balances s"
  "events (snd (contribute e cid from amt s)) = events s @ [Contributed cid from amt]"
  by (simp_all add: contribute_def Let_def fhe_defs split: prod.splits)

lemma contribute_campaigns:
  "campaigns (snd (contribute e cid from amt s)) =
     (campaigns s)(cid := (campaigns s cid)\<lparr>totalRaised :=
        Enc64 (nextHandle s) (plain64 (totalRaised (campaigns s cid)) + plain64 amt)\<rparr>)"
  by (simp add: contribute_def Let_def fhe_defs split: prod.splits)

lemma contribute_contributions:
  "contributions (snd (contribute e cid from amt s)) =
     (contributions s)(cid := (contributions s cid)(from :=
        Enc64 (if contributions s cid from = Uninit64 then (nextHandle s + 2) else (nextHandle s + 1))
              (plain64 (contributions s cid from) + plain64 amt)))"
  by (cases "contributions s cid from")
     (simp_all add: contribute_def Let_def fhe_defs add.commute split: prod.splits)

lemma contribute_accepted: "\<exists>h. fst (contribute e cid from amt s) = EncB h True"
  by (auto simp add: contribute_def Let_def fhe_defs split: prod.splits)

lemma contribute_acl:
  "acl (snd (contribute e cid from amt s)) =
     acl s \<union> {(nextHandle s, self s), (nextHandle s, creator (campaigns s cid)), (nextHandle s, from)}
           \<union> {(handle64 (contributions (snd (contribute e cid from amt s)) cid from), self s),
               (handle64 (contributions (snd (contribute e cid from amt s)) cid from), from)}
           \<union> {(handleB (fst (contribute e cid from amt s)), self s),
               (handleB (fst (contribute e cid from amt s)), msg_sender e)}"
  by (auto simp add: contribute_def Let_def fhe_defs split: prod.splits)

lemma settle_fields:
  "campaignCount (snd (settle e cid s)) = campaignCount s"
  "paymentToken (snd (settle e cid s)) = paymentToken s"
  "self (snd (settle e cid s)) = self s"
  "balances (snd (settle e cid s)) = balances s"
  "events (snd (settle e cid s)) = events s"
  "contributions (snd (settle e cid s)) = contributions s"
  "fst (settle e cid s) = totalRaised (campaigns s cid)"
  "campaigns (snd (settle e cid s)) =
     (campaigns s)(cid := (campaigns s cid)\<lparr>ended := True, totalRaised := Enc64 (nextHandle s) 0\<rparr>)"
  "acl (snd (settle e cid s)) =
     acl s \<union> {(handle64 (totalRaised (campaigns s cid)), self s),
               (handle64 (totalRaised (campaigns s cid)), msg_sender e)}"
  by (auto simp add: settle_def Let_def fhe_defs split: prod.splits)

lemma createCampaign_Inr:
  assumes "fst (createCampaign e nm tgt dl s) = Inr cid"
  shows "nm \<noteq> []" "tgt \<noteq> 0" "block_timestamp e < dl" "campaignCount s \<noteq> - 1"
    "cid = campaignCount s + 1"
    "campaignCount (snd (createCampaign e nm tgt dl s)) = cid"
    "contributions (snd (createCampaign e nm tgt dl s)) = contributions s"
    "campaigns (snd (createCampaign e nm tgt dl s)) =
       (campaigns s)(cid := \<lparr>name = nm, target = Enc64 (nextHandle s) tgt,
          totalRaised = Enc64 ((nextHandle s + 1)) 0, deadline = dl,
          creator = msg_sender e, ended = False\<rparr>)"
    "acl (snd (createCampaign e nm tgt dl s)) =
       acl s \<union> {(nextHandle s, self s), (nextHandle s, msg_sender e),
                 ((nextHandle s + 1), self s), ((nextHandle s + 1), msg_sender e)}"
  using assms
  by (auto simp add: createCampaign_def Let_def fhe_defs word_neq_0_conv split: if_splits prod.splits)

lemma callback_Inl:
  "fst (onConfidentialTransferReceived e operator from amt data s) = Inl err \<Longrightarrow>
   snd (onConfidentialTransferReceived e operator from amt data s) = s"
  by (auto simp add: onConfidentialTransferReceived_def Let_def split: if_splits option.splits prod.splits)

lemma callback_Inr:
  assumes "fst (onConfidentialTransferReceived e operator from amt data s) = Inr b"
  shows "\<exists>cid. abi_decode_uint256 data = Some cid \<and> msg_sender e = paymentToken s \<and>
           creator (campaigns s cid) \<noteq> 0 \<and> \<not> ended (campaigns s cid) \<and>
           block_timestamp e \<le> deadline (campaigns s cid) \<and>
           b = fst (contribute e cid from amt s) \<and>
           snd (onConfidentialTransferReceived e operator from amt data s) = snd (contribute e cid from amt s)"
  using assms
  by (auto simp add: onConfidentialTransferReceived_def Let_def split: if_splits option.splits prod.splits)

lemma endCampaign_guarded:
  "creator (campaigns s cid) \<noteq> 0 \<Longrightarrow> msg_sender e = creator (campaigns s cid) \<Longrightarrow>
   \<not> ended (campaigns s cid) \<Longrightarrow>
   endCampaign L e cid s =
     (case L (self s) (msg_sender e) (totalRaised (campaigns s cid)) (snd (settle e cid s)) of
        (Inl err, s6) \<Rightarrow> (Inl err, s6)
      | (Inr p, s6) \<Rightarrow> (Inr p, s6\<lparr>events := events s6 @ [CampaignEnded cid (msg_sender e) p]\<rparr>))"
proof -
  assume g: "creator (campaigns s cid) \<noteq> 0" "msg_sender e = creator (campaigns s cid)"
    "\<not> ended (campaigns s cid)"
  obtain p s5 where st: "settle e cid s = (p, s5)" by (cases "settle e cid s")
  with settle_fields(3,7)[of e cid s]
  have "self s5 = self s" "p = totalRaised (campaigns s cid)" by simp_all
  then show ?thesis using g st by (simp add: endCampaign_def Let_def)
qed

lemma endCampaign_Inr:
  assumes "storage_kept L" and "fst (endCampaign L e cid s) = Inr p"
  shows "creator (campaigns s cid) \<noteq> 0" "msg_sender e = creator (campaigns s cid)"
    "\<not> ended (campaigns s cid)"
    "campaignCount (snd (endCampaign L e cid s)) = campaignCount s"
    "contributions (snd (endCampaign L e cid s)) = contributions s"
    "campaigns (snd (endCampaign L e cid s)) =
       (campaigns s)(cid := (campaigns s cid)\<lparr>ended := True, totalRaised := Enc64 (nextHandle s) 0\<rparr>)"
    "acl s \<union> {(handle64 (totalRaised (campaigns s cid)), self s),
               (handle64 (totalRaised (campaigns s cid)), msg_sender e)}
       \<subseteq> acl (snd (endCampaign L e cid s))"
proof -
  show g: "creator (campaigns s cid) \<noteq> 0" "msg_sender e = creator (campaigns s cid)"
    "\<not> ended (campaigns s cid)"
    using assms(2) by (auto simp add: endCampaign_def Let_def split: if_splits)
  let ?m = "snd (settle e cid s)"
  let ?r = "L (self s) (msg_sender e) (totalRaised (campaigns s cid)) ?m"
  from assms(1) have k: "campaignCount (snd ?r) = campaignCount ?m" "campaigns (snd ?r) = campaigns ?m"
    "contributions (snd ?r) = contributions ?m" "acl ?m \<subseteq> acl (snd ?r)"
    unfolding storage_kept_def by blast+
  obtain p' s6 where r: "?r = (Inr p', s6)"
    using assms(2) endCampaign_guarded[OF g, of L] by (cases ?r) (auto split: sum.splits)
  have e: "snd (endCampaign L e cid s) = s6\<lparr>events := events s6 @ [CampaignEnded cid (msg_sender e) p']\<rparr>"
    using endCampaign_guarded[OF g, of L] r by simp
  show "campaignCount (snd (endCampaign L e cid s)) = campaignCount s"
    using k(1) r e by (simp add: settle_fields)
  show "contributions (snd (endCampaign L e cid s)) = contributions s"
    using k(3) r e by (simp add: settle_fields)
  show "campaigns (snd (endCampaign L e cid s)) =
       (campaigns s)(cid := (campaigns s cid)\<lparr>ended := True, totalRaised := Enc64 (nextHandle s) 0\<rparr>)"
    using k(2) r e by (simp add: settle_fields)
  show "acl s \<union> {(handle64 (totalRaised (campaigns s cid)), self s),
               (handle64 (totalRaised (campaigns s cid)), msg_sender e)}
       \<subseteq> acl (snd (endCampaign L e cid s))"
    using k(4) r e by (simp add: settle_fields)
qed

lemma endCampaign_rejections:
  "creator (campaigns s cid) = 0 \<Longrightarrow>
     endCampaign L e cid s = (Inl (Error ''Campaign not found''), s)"
  "creator (campaigns s cid) \<noteq> 0 \<Longrightarrow> msg_sender e \<noteq> creator (campaigns s cid) \<Longrightarrow>
     endCampaign L e cid s = (Inl (Error ''Only creator''), s)"
  "creator (campaigns s cid) \<noteq> 0 \<Longrightarrow> msg_sender e = creator (campaigns s cid) \<Longrightarrow>
   ended (campaigns s cid) \<Longrightarrow>
     endCampaign L e cid s = (Inl (Error ''Campaign already ended''), s)"
  by (simp_all add: endCampaign_def Let_def)

lemma endCampaign_returns:
  assumes "fst (L (self s) (msg_sender e) (totalRaised (campaigns s cid)) (snd (settle e cid s))) = Inr p"
    and "creator (campaigns s cid) \<noteq> 0"
    and "msg_sender e = creator (campaigns s cid)" and "\<not> ended (campaigns s cid)"
  shows "fst (endCampaign L e cid s) = Inr p"
  using assms(1) endCampaign_guarded[OF assms(2-4), of L]
  by (cases "L (self s) (msg_sender e) (totalRaised (campaigns s cid)) (snd (settle e cid s))")
     (auto split: sum.splits)

lemma endCampaign_token_fails:
  assumes "fst (L (self s) (msg_sender e) (totalRaised (campaigns s cid)) (snd (settle e cid s))) = Inl err"
    and "creator (campaigns s cid) \<noteq> 0"
    and "msg_sender e = creator (campaigns s cid)" and "\<not> ended (campaigns s cid)"
  shows "fst (endCampaign L e cid s) = Inl err"
  using assms(1) endCampaign_guarded[OF assms(2-4), of L]
  by (cases "L (self s) (msg_sender e) (totalRaised (campaigns s cid)) (snd (settle e cid s))")
     (auto split: sum.splits)

lemma endCampaign_Inr_token:
  assumes "fst (endCampaign L e cid s) = Inr p"
  shows "creator (campaigns s cid) \<noteq> 0" "msg_sender e = creator (campaigns s cid)"
    "\<not> ended (campaigns s cid)"
    "fst (L (self s) (msg_sender e) (totalRaised (campaigns s cid)) (snd (settle e cid s))) = Inr p"
proof -
  show g: "creator (campaigns s cid) \<noteq> 0" "msg_sender e = creator (campaigns s cid)"
    "\<not> ended (campaigns s cid)"
    using assms by (auto simp add: endCampaign_def Let_def split: if_splits)
  show "fst (L (self s) (msg_sender e) (totalRaised (campaigns s cid)) (snd (settle e cid s))) = Inr p"
    using assms endCampaign_guarded[OF g, of L]
    by (cases "L (self s) (msg_sender e) (totalRaised (campaigns s cid)) (snd (settle e cid s))")
       (auto split: sum.splits)
qed

subsection \<open>Transactions and sequences of calls\<close>

lemma word_less_succ: "(x::'a::len word) \<noteq> - 1 \<Longrightarrow> x < x + 1"
  by (meson inc_less_eq_triv_imp not_le)

lemma perform_Failed: "fst (perform L c s) = Failed err \<Longrightarrow> snd (perform L c s) = s"
  by (cases c) (auto simp add: transact_def split: prod.splits sum.splits)

lemma perform_Created:
  assumes "fst (perform L c s) = Created cid"
  shows "\<exists>e nm tgt dl. c = CreateCampaign e nm tgt dl \<and>
           fst (createCampaign e nm tgt dl s) = Inr cid \<and>
           snd (perform L c s) = snd (createCampaign e nm tgt dl s)"
  using assms by (cases c) (auto simp add: transact_def split: prod.splits sum.splits)

lemma perform_Accepted:
  assumes "fst (perform L c s) = Accepted b"
  shows "\<exists>e operator from amt data cid. c = OnConfidentialTransferReceived e operator from amt data \<and>
           abi_decode_uint256 data = Some cid \<and> msg_sender e = paymentToken s \<and>
           creator (campaigns s cid) \<noteq> 0 \<and> \<not> ended (campaigns s cid) \<and>
           block_timestamp e \<le> deadline (campaigns s cid) \<and>
           b = fst (contribute e cid from amt s) \<and>
           snd (perform L c s) = snd (contribute e cid from amt s)"
proof (cases c)
  case (OnConfidentialTransferReceived e operator "from" amt data)
  with assms have "fst (onConfidentialTransferReceived e operator from amt data s) = Inr b"
    "snd (perform L c s) = snd (onConfidentialTransferReceived e operator from amt data s)"
    by (auto simp add: transact_def split: prod.splits sum.splits)
  with callback_Inr[of e operator "from" amt data s b] OnConfidentialTransferReceived
  show ?thesis by auto
qed (use assms in \<open>auto simp add: transact_def split: prod.splits sum.splits\<close>)

lemma perform_Paid:
  assumes "fst (perform L c s) = Paid p"
  shows "\<exists>e cid. c = EndCampaign e cid \<and> fst (endCampaign L e cid s) = Inr p \<and>
           snd (perform L c s) = snd (endCampaign L e cid s)"
  using assms by (cases c) (auto simp add: transact_def split: prod.splits sum.splits)

text \<open>What one call does to the counter, the campaign records and the contribution entries.\<close>

lemma perform_cases [consumes 1, case_names Failed Created Accepted Paid]:
  assumes "storage_kept L"
  obtains
    (Failed) err where "fst (perform L c s) = Failed err" "snd (perform L c s) = s"
  | (Created) e nm tgt dl where "c = CreateCampaign e nm tgt dl"
      "fst (perform L c s) = Created (campaignCount s + 1)" "campaignCount s \<noteq> - 1"
      "campaignCount (snd (perform L c s)) = campaignCount s + 1"
      "contributions (snd (perform L c s)) = contributions s"
      "campaigns (snd (perform L c s)) =
         (campaigns s)(campaignCount s + 1 := \<lparr>name = nm, target = Enc64 (nextHandle s) tgt,
            totalRaised = Enc64 (nextHandle s + 1) 0, deadline = dl,
            creator = msg_sender e, ended = False\<rparr>)"
  | (Accepted) e operator "from" amt data cid b where
      "c = OnConfidentialTransferReceived e operator from amt data"
      "abi_decode_uint256 data = Some cid" "fst (perform L c s) = Accepted b"
      "creator (campaigns s cid) \<noteq> 0" "\<not> ended (campaigns s cid)"
      "campaignCount (snd (perform L c s)) = campaignCount s"
      "contributions (snd (perform L c s)) =
         (contributions s)(cid := (contributions s cid)(from :=
            Enc64 (if contributions s cid from = Uninit64 then nextHandle s + 2 else nextHandle s + 1)
                  (plain64 (contributions s cid from) + plain64 amt)))"
      "campaigns (snd (perform L c s)) =
         (campaigns s)(cid := (campaigns s cid)\<lparr>totalRaised :=
            Enc64 (nextHandle s) (plain64 (totalRaised (campaigns s cid)) + plain64 amt)\<rparr>)"
  | (Paid) e cid p where "c = EndCampaign e cid" "fst (perform L c s) = Paid p"
      "creator (campaigns s cid) \<noteq> 0" "msg_sender e = creator (campaigns s cid)"
      "\<not> ended (campaigns s cid)"
      "campaignCount (snd (perform L c s)) = campaignCount s"
      "contributions (snd (perform L c s)) = contributions s"
      "campaigns (snd (perform L c s)) =
         (campaigns s)(cid := (campaigns s cid)\<lparr>ended := True, totalRaised := Enc64 (nextHandle s) 0\<rparr>)"
proof (cases "fst (perform L c s)")
  case (Failed err)
  then show ?thesis using perform_Failed[OF Failed] that(1) by blast
next
  case (Created cid)
  from perform_Created[OF Created] obtain e nm tgt dl where
    c: "c = CreateCampaign e nm tgt dl" "fst (createCampaign e nm tgt dl s) = Inr cid"
       "snd (perform L c s) = snd (createCampaign e nm tgt dl s)" by blast
  note r = createCampaign_Inr[OF c(2)]
  show ?thesis
    using that(2)[OF c(1)] Created r(4,5,6,7,8) c(3) by simp
next
  case (Accepted b)
  from perform_Accepted[OF Accepted] obtain e operator "from" amt data cid where
    c: "c = OnConfidentialTransferReceived e operator from amt data"
       "abi_decode_uint256 data = Some cid" "creator (campaigns s cid) \<noteq> 0"
       "\<not> ended (campaigns s cid)" "snd (perform L c s) = snd (contribute e cid from amt s)"
    by blast
  show ?thesis
    using that(3)[OF c(1,2) Accepted c(3,4)] c(5)
    by (simp add: contribute_fields contribute_contributions contribute_campaigns)
next
  case (Paid p)
  from perform_Paid[OF Paid] obtain e cid where
    c: "c = EndCampaign e cid" "fst (endCampaign L e cid s) = Inr p"
       "snd (perform L c s) = snd (endCampaign L e cid s)" by blast
  note r = endCampaign_Inr[OF assms c(2)]
  show ?thesis
    using that(4)[OF c(1) Paid r(1,2,3)] r(4,5,6) c(3) by simp
qed

lemma perform_acl:
  assumes "storage_kept L"
  shows "acl s \<subseteq> acl (snd (perform L c s))"
proof (cases "fst (perform L c s)")
  case (Failed err)
  then show ?thesis using perform_Failed[OF Failed] by simp
next
  case (Created cid)
  from perform_Created[OF Created] obtain e nm tgt dl where
    c: "fst (createCampaign e nm tgt dl s) = Inr cid"
       "snd (perform L c s) = snd (createCampaign e nm tgt dl s)" by blast
  show ?thesis using createCampaign_Inr(9)[OF c(1)] c(2) by auto
next
  case (Accepted b)
  from perform_Accepted[OF Accepted] obtain e "from" amt cid where
    c: "snd (perform L c s) = snd (contribute e cid from amt s)" by blast
  show ?thesis using contribute_acl[of e cid "from" amt s] c by auto
next
  case (Paid p)
  from perform_Paid[OF Paid] obtain e cid where
    c: "fst (endCampaign L e cid s) = Inr p" "snd (perform L c s) = snd (endCampaign L e cid s)"
    by blast
  show ?thesis using endCampaign_Inr(7)[OF assms c(1)] c(2) by auto
qed

lemma accepted_Cons: "accepted L (c # cs) s = accepted L [c] s @ accepted L cs (snd (perform L c s))"
  by simp

lemma raised_for_append: "raised_for cid (xs @ ys) = raised_for cid xs + raised_for cid ys"
  by (simp add: raised_for_def)

lemma contributed_by_append:
  "contributed_by cid who (xs @ ys) = contributed_by cid who xs + contributed_by cid who ys"
  by (simp add: contributed_by_def)

lemma unat_sum_list_mod:
  "unat (sum_list ws :: 'a::len word) = sum_list (map unat ws) mod 2 ^ LENGTH('a)"
proof (induction ws)
  case Nil
  show ?case by simp
next
  case (Cons w ws)
  have "unat (w + sum_list ws) = (unat w + unat (sum_list ws)) mod 2 ^ LENGTH('a)"
    by (simp add: unat_word_ariths)
  also have "\<dots> = (unat w + sum_list (map unat ws) mod 2 ^ LENGTH('a)) mod 2 ^ LENGTH('a)"
    by (simp only: Cons.IH)
  also have "\<dots> = (unat w + sum_list (map unat ws)) mod 2 ^ LENGTH('a)"
    by (simp add: mod_add_right_eq)
  finally show ?case by simp
qed

lemma raised_for_nat_mod: "unat (raised_for cid xs) = raised_for_nat cid xs mod 2 ^ 64"
proof -
  let ?ws = "map (\<lambda>(c, a, v). v) (filter (\<lambda>(c, a, v). c = cid) xs)"
  have "map unat ?ws = map (\<lambda>(c, a, v). unat v) (filter (\<lambda>(c, a, v). c = cid) xs)"
    by (induction xs) auto
  then have "sum_list (map unat ?ws) = raised_for_nat cid xs"
    unfolding raised_for_nat_def by (rule arg_cong)
  moreover have "unat (sum_list ?ws) = sum_list (map unat ?ws) mod 2 ^ 64"
    using unat_sum_list_mod[of ?ws] by simp
  ultimately show ?thesis unfolding raised_for_def by (simp only:)
qed

lemma contributed_by_nat_mod:
  "unat (contributed_by cid who xs) = contributed_by_nat cid who xs mod 2 ^ 64"
proof -
  let ?ws = "map (\<lambda>(c, a, v). v) (filter (\<lambda>(c, a, v). c = cid \<and> a = who) xs)"
  have "map unat ?ws = map (\<lambda>(c, a, v). unat v) (filter (\<lambda>(c, a, v). c = cid \<and> a = who) xs)"
    by (induction xs) auto
  then have "sum_list (map unat ?ws) = contributed_by_nat cid who xs"
    unfolding contributed_by_nat_def by (rule arg_cong)
  moreover have "unat (sum_list ?ws) = sum_list (map unat ?ws) mod 2 ^ 64"
    using unat_sum_list_mod[of ?ws] by simp
  ultimately show ?thesis unfolding contributed_by_def by (simp only:)
qed

subsection \<open>The modelled token meets the assumptions\<close>

lemma confidentialTransfer_kept: "storage_kept confidentialTransfer"
  by (auto simp add: storage_kept_def confidentialTransfer_def Let_def fhe_defs split: prod.splits)

lemma confidentialTransfer_returns: "\<exists>p. fst (confidentialTransfer caller to amount s) = Inr p"
  by (auto simp add: confidentialTransfer_def Let_def fhe_defs split: prod.splits)

lemma reverting_token_kept: "storage_kept reverting_token"
  by (simp add: storage_kept_def reverting_token_def)

subsection \<open>The scenario of the tests, evaluated\<close>

lemma deployed_state:
  "paymentToken (deployed t a) = t" "self (deployed t a) = a" "campaignCount (deployed t a) = 0"
  "campaigns (deployed t a) cid = no_campaign" "contributions (deployed t a) cid who = Uninit64"
  "creator (campaigns (deployed t a) cid) = 0" "ended (campaigns (deployed t a) cid) = False"
  "totalRaised (campaigns (deployed t a) cid) = Uninit64"
  by (simp_all add: deployed_def no_campaign_def)

lemma decode_one: "abi_decode_uint256 (abi_encode_uint256 1) = Some 1"
  by (simp add: abi_decode_uint256_def abi_encode_uint256_def upt_rec)

lemma launch_evaluated:
  "perform L launch (deployed 7 9) =
     (Created 1,
      \<lparr>paymentToken = 7, self = 9, campaignCount = 1,
       campaigns = (\<lambda>_. no_campaign)(1 := \<lparr>name = ''Test Launch'', target = Enc64 1 1000,
          totalRaised = Enc64 2 0, deadline = 3700, creator = 1, ended = False\<rparr>),
       contributions = (\<lambda>_ _. Uninit64),
       events = [CampaignCreated 1 ''Test Launch'' 1000 3700 1],
       nextHandle = 3, acl = {(1, 9), (1, 1), (2, 9), (2, 1)}, balances = (\<lambda>_. Uninit64)\<rparr>)"
  by (simp add: launch_def deployed_def createCampaign_def transact_def fhe_defs Let_def
        no_campaign_def insert_commute)

lemma after_launch_eq:
  "after_launch =
     \<lparr>paymentToken = 7, self = 9, campaignCount = 1,
      campaigns = (\<lambda>_. no_campaign)(1 := \<lparr>name = ''Test Launch'', target = Enc64 1 1000,
         totalRaised = Enc64 2 0, deadline = 3700, creator = 1, ended = False\<rparr>),
      contributions = (\<lambda>_ _. Uninit64),
      events = [CampaignCreated 1 ''Test Launch'' 1000 3700 1],
      nextHandle = 3, acl = {(1, 9), (1, 1), (2, 9), (2, 1)}, balances = (\<lambda>_. Uninit64)\<rparr>"
  by (simp add: after_launch_def launch_evaluated)

lemma launched: "perform L launch (deployed 7 9) = (Created 1, after_launch)"
  by (simp add: after_launch_eq launch_evaluated)

lemma pledge_evaluated:
  "perform L pledge after_launch =
     (Accepted (EncB 6 True),
      \<lparr>paymentToken = 7, self = 9, campaignCount = 1,
       campaigns = (\<lambda>_. no_campaign)(1 := \<lparr>name = ''Test Launch'', target = Enc64 1 1000,
          totalRaised = Enc64 3 750, deadline = 3700, creator = 1, ended = False\<rparr>),
       contributions = (\<lambda>_ _. Uninit64)(1 := (\<lambda>_. Uninit64)(2 := Enc64 5 750)),
       events = [CampaignCreated 1 ''Test Launch'' 1000 3700 1, Contributed 1 2 (Enc64 50 750)],
       nextHandle = 7,
       acl = {(1, 9), (1, 1), (2, 9), (2, 1), (3, 9), (3, 1), (3, 2), (5, 9), (5, 2), (6, 9), (6, 7)},
       balances = (\<lambda>_. Uninit64)\<rparr>)"
  by (simp add: after_launch_eq pledge_def onConfidentialTransferReceived_def decode_one
        contribute_def transact_def fhe_defs Let_def insert_commute)

lemma after_pledge_eq:
  "after_pledge =
     \<lparr>paymentToken = 7, self = 9, campaignCount = 1,
      campaigns = (\<lambda>_. no_campaign)(1 := \<lparr>name = ''Test Launch'', target = Enc64 1 1000,
         totalRaised = Enc64 3 750, deadline = 3700, creator = 1, ended = False\<rparr>),
      contributions = (\<lambda>_ _. Uninit64)(1 := (\<lambda>_. Uninit64)(2 := Enc64 5 750)),
      events = [CampaignCreated 1 ''Test Launch'' 1000 3700 1, Contributed 1 2 (Enc64 50 750)],
      nextHandle = 7,
      acl = {(1, 9), (1, 1), (2, 9), (2, 1), (3, 9), (3, 1), (3, 2), (5, 9), (5, 2), (6, 9), (6, 7)},
      balances = (\<lambda>_. Uninit64)\<rparr>"
  by (simp add: after_pledge_def pledge_evaluated)

lemma funded: "perform L pledge after_launch = (Accepted (EncB 6 True), after_pledge)"
  by (simp add: after_pledge_eq pledge_evaluated)

lemma close_evaluated:
  "perform confidentialTransfer close after_pledge =
     (Paid (Enc64 8 0),
      \<lparr>paymentToken = 7, self = 9, campaignCount = 1,
       campaigns = (\<lambda>_. no_campaign)(1 := \<lparr>name = ''Test Launch'', target = Enc64 1 1000,
          totalRaised = Enc64 7 0, deadline = 3700, creator = 1, ended = True\<rparr>),
       contributions = (\<lambda>_ _. Uninit64)(1 := (\<lambda>_. Uninit64)(2 := Enc64 5 750)),
       events = [CampaignCreated 1 ''Test Launch'' 1000 3700 1, Contributed 1 2 (Enc64 50 750),
                 CampaignEnded 1 1 (Enc64 8 0)],
       nextHandle = 11,
       acl = {(1, 9), (1, 1), (2, 9), (2, 1), (3, 9), (3, 1), (3, 2), (5, 9), (5, 2), (6, 9), (6, 7),
              (8, 1)},
       balances = (\<lambda>_. Uninit64)(9 := Enc64 9 0, 1 := Enc64 10 0)\<rparr>)"
  by (simp add: after_pledge_eq close_def endCampaign_def settle_def confidentialTransfer_def
        transact_def fhe_defs Let_def insert_commute)

lemma closed: "perform confidentialTransfer close after_pledge = (Paid (Enc64 8 0), after_close)"
  by (simp add: after_close_def close_evaluated)

lemma relaunched: "fst (perform L launch after_pledge) = Created 2"
  by (simp add: after_pledge_eq launch_def createCampaign_def transact_def fhe_defs Let_def)

lemma after_launch_state:
  "paymentToken after_launch = 7" "self after_launch = 9"
  "creator (campaigns after_launch 1) = 1" "creator (campaigns after_launch 2) = 0"
  "ended (campaigns after_launch 1) = False" "deadline (campaigns after_launch 1) = 3700"
  "target (campaigns after_launch 1) = Enc64 1 1000"
  "totalRaised (campaigns after_launch 1) = Enc64 2 0"
  by (simp_all add: after_launch_eq no_campaign_def)

lemma after_pledge_state:
  "paymentToken after_pledge = 7" "self after_pledge = 9"
  "creator (campaigns after_pledge 1) = 1" "ended (campaigns after_pledge 1) = False"
  "totalRaised (campaigns after_pledge 1) = Enc64 3 750"
  "contributions after_pledge 1 2 = Enc64 5 750" "nextHandle after_pledge = 7"
  by (simp_all add: after_pledge_eq)

lemma after_close_state:
  "paymentToken after_close = 7" "creator (campaigns after_close 1) = 1"
  "ended (campaigns after_close 1) = True" "totalRaised (campaigns after_close 1) = Enc64 7 0"
  "contributions after_close 1 2 = Enc64 5 750"
  by (simp_all add: after_close_def close_evaluated)

lemma reclosed:
  "perform L close after_close = (Failed (Error ''Campaign already ended''), after_close)"
  by (simp add: close_def endCampaign_def transact_def Let_def after_close_state)

lemma settled_close: "settled 1 close (Paid p)" "\<not> settled 1 close (Failed err)"
  by (simp_all add: close_def)

lemma scenario_contributions:
  "contribution_of launch out = None" "contribution_of close out = None"
  "contribution_of pledge (Accepted b) = Some (1, 2, 750)"
  by (simp_all add: launch_def close_def pledge_def decode_one)

lemmas callback_eval = onConfidentialTransferReceived_def decode_one contribute_def transact_def
  fhe_defs Let_def insert_commute

lemma second_pledge_evaluated:
  "perform L pledge after_pledge =
     (Accepted (EncB 9 True),
      \<lparr>paymentToken = 7, self = 9, campaignCount = 1,
       campaigns = (\<lambda>_. no_campaign)(1 := \<lparr>name = ''Test Launch'', target = Enc64 1 1000,
          totalRaised = Enc64 7 1500, deadline = 3700, creator = 1, ended = False\<rparr>),
       contributions = (\<lambda>_ _. Uninit64)(1 := (\<lambda>_. Uninit64)(2 := Enc64 8 1500)),
       events = [CampaignCreated 1 ''Test Launch'' 1000 3700 1, Contributed 1 2 (Enc64 50 750),
                 Contributed 1 2 (Enc64 50 750)],
       nextHandle = 10,
       acl = {(1, 9), (1, 1), (2, 9), (2, 1), (3, 9), (3, 1), (3, 2), (5, 9), (5, 2), (6, 9), (6, 7),
              (7, 9), (7, 1), (7, 2), (8, 9), (8, 2), (9, 9), (9, 7)},
       balances = (\<lambda>_. Uninit64)\<rparr>)"
  by (simp add: after_pledge_eq pledge_def callback_eval)

lemma pledged_again: "perform L pledge after_pledge = (Accepted (EncB 9 True), after_second_pledge)"
  by (simp add: after_second_pledge_def second_pledge_evaluated)

lemma after_second_pledge_state:
  "ended (campaigns after_second_pledge 1) = False"
  "totalRaised (campaigns after_second_pledge 1) = Enc64 7 1500"
  "contributions after_second_pledge 1 2 = Enc64 8 1500"
  by (simp_all add: after_second_pledge_def second_pledge_evaluated)

lemma max_evaluated:
  "perform L pledge_max after_launch =
     (Accepted (EncB 6 True),
      \<lparr>paymentToken = 7, self = 9, campaignCount = 1,
       campaigns = (\<lambda>_. no_campaign)(1 := \<lparr>name = ''Test Launch'', target = Enc64 1 1000,
          totalRaised = Enc64 3 18446744073709551615, deadline = 3700, creator = 1, ended = False\<rparr>),
       contributions = (\<lambda>_ _. Uninit64)(1 := (\<lambda>_. Uninit64)(2 := Enc64 5 18446744073709551615)),
       events = [CampaignCreated 1 ''Test Launch'' 1000 3700 1,
                 Contributed 1 2 (Enc64 60 18446744073709551615)],
       nextHandle = 7,
       acl = {(1, 9), (1, 1), (2, 9), (2, 1), (3, 9), (3, 1), (3, 2), (5, 9), (5, 2), (6, 9), (6, 7)},
       balances = (\<lambda>_. Uninit64)\<rparr>)"
  by (simp add: after_launch_eq pledge_max_def callback_eval)

lemma after_max_eq:
  "after_max =
      \<lparr>paymentToken = 7, self = 9, campaignCount = 1,
       campaigns = (\<lambda>_. no_campaign)(1 := \<lparr>name = ''Test Launch'', target = Enc64 1 1000,
          totalRaised = Enc64 3 18446744073709551615, deadline = 3700, creator = 1, ended = False\<rparr>),
       contributions = (\<lambda>_ _. Uninit64)(1 := (\<lambda>_. Uninit64)(2 := Enc64 5 18446744073709551615)),
       events = [CampaignCreated 1 ''Test Launch'' 1000 3700 1,
                 Contributed 1 2 (Enc64 60 18446744073709551615)],
       nextHandle = 7,
       acl = {(1, 9), (1, 1), (2, 9), (2, 1), (3, 9), (3, 1), (3, 2), (5, 9), (5, 2), (6, 9), (6, 7)},
       balances = (\<lambda>_. Uninit64)\<rparr>"
  by (simp add: after_max_def max_evaluated)

lemma maxed: "perform L pledge_max after_launch = (Accepted (EncB 6 True), after_max)"
  by (simp add: after_max_eq max_evaluated)

lemma word64_wraps: "(18446744073709551616 :: 64 word) = 0"
  by simp

lemma wrap_evaluated:
  "perform L pledge_one after_max =
     (Accepted (EncB 9 True),
      \<lparr>paymentToken = 7, self = 9, campaignCount = 1,
       campaigns = (\<lambda>_. no_campaign)(1 := \<lparr>name = ''Test Launch'', target = Enc64 1 1000,
          totalRaised = Enc64 7 0, deadline = 3700, creator = 1, ended = False\<rparr>),
       contributions = (\<lambda>_ _. Uninit64)(1 := (\<lambda>_. Uninit64)(2 := Enc64 8 0)),
       events = [CampaignCreated 1 ''Test Launch'' 1000 3700 1,
                 Contributed 1 2 (Enc64 60 18446744073709551615), Contributed 1 2 (Enc64 61 1)],
       nextHandle = 10,
       acl = {(1, 9), (1, 1), (2, 9), (2, 1), (3, 9), (3, 1), (3, 2), (5, 9), (5, 2), (6, 9), (6, 7),
              (7, 9), (7, 1), (7, 2), (8, 9), (8, 2), (9, 9), (9, 7)},
       balances = (\<lambda>_. Uninit64)\<rparr>)"
  by (simp add: after_max_eq pledge_one_def callback_eval word64_wraps)

lemma wrapped: "perform L pledge_one after_max = (Accepted (EncB 9 True), after_wrap)"
  by (simp add: after_wrap_def wrap_evaluated)

lemma after_max_state:
  "ended (campaigns after_max 1) = False"
  "totalRaised (campaigns after_max 1) = Enc64 3 18446744073709551615"
  "contributions after_max 1 2 = Enc64 5 18446744073709551615"
  by (simp_all add: after_max_eq)

lemma after_wrap_state:
  "ended (campaigns after_wrap 1) = False"
  "totalRaised (campaigns after_wrap 1) = Enc64 7 0"
  "contributions after_wrap 1 2 = Enc64 8 0"
  by (simp_all add: after_wrap_def wrap_evaluated)

lemma overflow_contributions:
  "contribution_of pledge_max (Accepted b) = Some (1, 2, 18446744073709551615)"
  "contribution_of pledge_one (Accepted b) = Some (1, 2, 1)"
  by (simp_all add: pledge_max_def pledge_one_def decode_one)

lemma unshared_close_evaluated:
  "perform confidentialTransfer close unshared =
     (Paid (Enc64 8 0),
      \<lparr>paymentToken = 7, self = 9, campaignCount = 1,
       campaigns = (\<lambda>_. no_campaign)(1 := \<lparr>name = ''Test Launch'', target = Enc64 1 1000,
          totalRaised = Enc64 7 0, deadline = 3700, creator = 1, ended = True\<rparr>),
       contributions = (\<lambda>_ _. Uninit64)(1 := (\<lambda>_. Uninit64)(2 := Enc64 5 750)),
       events = [CampaignCreated 1 ''Test Launch'' 1000 3700 1, Contributed 1 2 (Enc64 50 750),
                 CampaignEnded 1 1 (Enc64 8 0)],
       nextHandle = 11,
       acl = {(3, 9), (3, 1), (8, 1)},
       balances = (\<lambda>_. Uninit64)(9 := Enc64 9 0, 1 := Enc64 10 0)\<rparr>)"
  by (simp add: unshared_def after_pledge_eq close_def endCampaign_def settle_def
        confidentialTransfer_def transact_def fhe_defs Let_def insert_commute)

lemma unshared_state:
  "acl unshared = {}" "self unshared = 9" "creator (campaigns unshared 1) = 1"
  "totalRaised (campaigns unshared 1) = Enc64 3 750" "ended (campaigns unshared 1) = False"
  by (simp_all add: unshared_def after_pledge_eq)

subsection \<open>Slots beyond the counter are unused\<close>

lemma unused_above_deployed: "unused_above (deployed t a)"
  by (simp add: unused_above_def deployed_def)

lemma unused_above_perform:
  assumes "storage_kept L" and "unused_above s"
  shows "unused_above (snd (perform L c s))"
  using assms(1)
proof (cases rule: perform_cases[where c=c and s=s])
  case (Failed err)
  then show ?thesis using assms(2) by simp
next
  case (Created e nm tgt dl)
  have "campaignCount s < campaignCount s + 1" using Created(3) by (rule word_less_succ)
  then show ?thesis
    using assms(2) Created(4,6) unfolding unused_above_def by auto
next
  case (Accepted e operator "from" amt data cid b)
  have "\<not> campaignCount s < cid"
    using assms(2) Accepted(4) unfolding unused_above_def no_campaign_def by force
  then show ?thesis
    using assms(2) Accepted(6,8) unfolding unused_above_def by auto
next
  case (Paid e cid p)
  have "\<not> campaignCount s < cid"
    using assms(2) Paid(3) unfolding unused_above_def no_campaign_def by force
  then show ?thesis
    using assms(2) Paid(6,8) unfolding unused_above_def by auto
qed

lemma unused_above_run:
  assumes "storage_kept L"
  shows "unused_above s \<Longrightarrow> unused_above (run L cs s)"
  by (induction cs arbitrary: s) (simp_all add: unused_above_perform[OF assms])

lemma slot_zero_perform:
  assumes "storage_kept L" and "campaigns s 0 = no_campaign"
  shows "campaigns (snd (perform L c s)) 0 = no_campaign"
  using assms(1)
proof (cases rule: perform_cases[where c=c and s=s])
  case (Failed err)
  then show ?thesis using assms(2) by simp
next
  case (Created e nm tgt dl)
  have "campaignCount s + 1 \<noteq> 0" using Created(3) by (metis add_eq_0_iff2 eq_neg_iff_add_eq_0)
  then show ?thesis using assms(2) Created(6) by simp
next
  case (Accepted e operator "from" amt data cid b)
  have "cid \<noteq> 0" using assms(2) Accepted(4) by (auto simp add: no_campaign_def)
  then show ?thesis using assms(2) Accepted(8) by simp
next
  case (Paid e cid p)
  have "cid \<noteq> 0" using assms(2) Paid(3) by (auto simp add: no_campaign_def)
  then show ?thesis using assms(2) Paid(8) by simp
qed

lemma slot_zero_run:
  assumes "storage_kept L"
  shows "campaigns s 0 = no_campaign \<Longrightarrow> campaigns (run L cs s) 0 = no_campaign"
  by (induction cs arbitrary: s) (simp_all add: slot_zero_perform[OF assms])

lemma created_ids_from:
  assumes "storage_kept L"
  shows "sorted_wrt (<) (created_ids (outcomes L cs s)) \<and>
         (\<forall>i \<in> set (created_ids (outcomes L cs s)). campaignCount s < i) \<and>
         (\<forall>k < length (created_ids (outcomes L cs s)).
            created_ids (outcomes L cs s) ! k = campaignCount s + 1 + of_nat k)"
proof (induction cs arbitrary: s)
  case Nil
  show ?case by simp
next
  case (Cons c cs)
  let ?s' = "snd (perform L c s)"
  note IH = Cons.IH[of ?s']
  show ?case
    using assms
  proof (cases rule: perform_cases[where c=c and s=s])
    case (Failed err)
    then show ?thesis using IH by simp
  next
    case (Created e nm tgt dl)
    have lt: "campaignCount s < campaignCount s + 1" using Created(3) by (rule word_less_succ)
    have ids: "created_ids (outcomes L (c # cs) s) = (campaignCount s + 1) # created_ids (outcomes L cs ?s')"
      using Created(2) by simp
    have nth: "((campaignCount s + 1) # created_ids (outcomes L cs ?s')) ! k = campaignCount s + 1 + of_nat k"
      if "k < Suc (length (created_ids (outcomes L cs ?s')))" for k
    proof (cases k)
      case 0
      then show ?thesis by simp
    next
      case (Suc j)
      then show ?thesis using IH that Created(4) by (simp add: algebra_simps)
    qed
    show ?thesis
      unfolding ids using IH Created(4) lt nth by (auto intro: less_trans)
  next
    case (Accepted e operator "from" amt data cid b)
    then show ?thesis using IH by simp
  next
    case (Paid e cid p)
    then show ?thesis using IH by simp
  qed
qed

subsection \<open>One call: the ended flag, the total and the entries\<close>

lemma step_ended:
  assumes "storage_kept L" and "unused_above s" and "ended (campaigns s cid)"
  shows "campaigns (snd (perform L c s)) cid = campaigns s cid \<and>
         \<not> settled cid c (fst (perform L c s))"
  using assms(1)
proof (cases rule: perform_cases[where c=c and s=s])
  case (Failed err)
  then show ?thesis by simp
next
  case (Created e nm tgt dl)
  have "campaignCount s < campaignCount s + 1" using Created(3) by (rule word_less_succ)
  then have "cid \<noteq> campaignCount s + 1"
    using assms(2,3) unfolding unused_above_def no_campaign_def by force
  then show ?thesis using Created(1,2,6) by simp
next
  case (Accepted e operator "from" amt data cid' b)
  have "cid \<noteq> cid'" using Accepted(5) assms(3) by auto
  then show ?thesis using Accepted(1,3,8) by simp
next
  case (Paid e cid' p)
  have "cid \<noteq> cid'" using Paid(5) assms(3) by auto
  then show ?thesis using Paid(1,2,8) by simp
qed

lemma step_settled:
  assumes "storage_kept L" and "settled cid c (fst (perform L c s))"
  shows "\<not> ended (campaigns s cid) \<and> ended (campaigns (snd (perform L c s)) cid) \<and>
         totalRaised (campaigns (snd (perform L c s)) cid) = Enc64 (nextHandle s) 0"
  using assms(1)
proof (cases rule: perform_cases[where c=c and s=s])
  case (Failed err)
  then show ?thesis using assms(2) by simp
next
  case (Created e nm tgt dl)
  then show ?thesis using assms(2) by simp
next
  case (Accepted e operator "from" amt data cid' b)
  then show ?thesis using assms(2) by simp
next
  case (Paid e cid' p)
  have eq: "cid' = cid" using Paid(1,2) assms(2) by simp
  then show ?thesis using Paid(5,8) by simp
qed

lemma step_unsettled:
  assumes "storage_kept L" and "unused_above s" and "\<not> settled cid c (fst (perform L c s))"
  shows "ended (campaigns (snd (perform L c s)) cid) = ended (campaigns s cid) \<and>
         plain64 (totalRaised (campaigns (snd (perform L c s)) cid)) =
           plain64 (totalRaised (campaigns s cid)) + raised_for cid (accepted L [c] s)"
  using assms(1)
proof (cases rule: perform_cases[where c=c and s=s])
  case (Failed err)
  then show ?thesis by (simp add: raised_for_def)
next
  case (Created e nm tgt dl)
  have lt: "campaignCount s < campaignCount s + 1" using Created(3) by (rule word_less_succ)
  have fresh: "campaigns s (campaignCount s + 1) = no_campaign"
    using assms(2) lt unfolding unused_above_def by blast
  show ?thesis using Created(1,2,6) fresh by (simp add: no_campaign_def raised_for_def)
next
  case (Accepted e operator "from" amt data cid' b)
  show ?thesis using Accepted(1,2,3,8) by (simp add: raised_for_def)
next
  case (Paid e cid' p)
  have ne: "cid' \<noteq> cid" using Paid(1,2) assms(3) by simp
  show ?thesis using Paid(1,2,8) ne by (simp add: raised_for_def)
qed

lemma settlements_from:
  assumes "storage_kept L"
  shows "unused_above s \<Longrightarrow>
    (ended (campaigns s cid) \<longrightarrow>
       settlements L cid cs s = 0 \<and> campaigns (run L cs s) cid = campaigns s cid) \<and>
    (\<not> ended (campaigns s cid) \<longrightarrow>
       settlements L cid cs s \<le> 1 \<and>
       (ended (campaigns (run L cs s) cid) \<longleftrightarrow> settlements L cid cs s = 1))"
proof (induction cs arbitrary: s)
  case Nil
  then show ?case by simp
next
  case (Cons c cs)
  let ?s' = "snd (perform L c s)"
  have u: "unused_above ?s'" using unused_above_perform[OF assms Cons.prems] .
  note IH = Cons.IH[OF u]
  show ?case
  proof (cases "ended (campaigns s cid)")
    case True
    from step_ended[OF assms Cons.prems True, of c]
    show ?thesis using IH True by simp
  next
    case False
    show ?thesis
    proof (cases "settled cid c (fst (perform L c s))")
      case True
      from step_settled[OF assms True] show ?thesis using IH True False by simp
    next
      case nonsettled: False
      from step_unsettled[OF assms Cons.prems nonsettled]
      show ?thesis using IH nonsettled False by simp
    qed
  qed
qed

lemma step_entry:
  assumes "storage_kept L"
  shows "plain64 (contributions (snd (perform L c s)) cid who) =
           plain64 (contributions s cid who) + contributed_by cid who (accepted L [c] s) \<and>
         (isInitialized (contributions (snd (perform L c s)) cid who) \<longleftrightarrow>
            isInitialized (contributions s cid who) \<or> (\<exists>v. (cid, who, v) \<in> set (accepted L [c] s)))"
  using assms
proof (cases rule: perform_cases[where c=c and s=s])
  case (Failed err)
  then show ?thesis by (simp add: contributed_by_def)
next
  case (Created e nm tgt dl)
  then show ?thesis by (simp add: contributed_by_def)
next
  case (Accepted e operator "from" amt data cid' b)
  then show ?thesis by (auto simp add: contributed_by_def isInitialized_def)
next
  case (Paid e cid' p)
  then show ?thesis by (simp add: contributed_by_def)
qed

lemma entries_from:
  assumes "storage_kept L"
  shows "plain64 (contributions (run L cs s) cid who) =
           plain64 (contributions s cid who) + contributed_by cid who (accepted L cs s) \<and>
         (isInitialized (contributions (run L cs s) cid who) \<longleftrightarrow>
            isInitialized (contributions s cid who) \<or> (\<exists>v. (cid, who, v) \<in> set (accepted L cs s)))"
proof (induction cs arbitrary: s)
  case Nil
  show ?case by (simp add: contributed_by_def)
next
  case (Cons c cs)
  note st = step_entry[OF assms, of c s cid who]
  note IH = Cons.IH[of "snd (perform L c s)"]
  have sum: "plain64 (contributions (run L (c # cs) s) cid who) =
           plain64 (contributions s cid who) + contributed_by cid who (accepted L (c # cs) s)"
    unfolding accepted_Cons[of L c cs s] contributed_by_append using st IH by (simp add: add.assoc)
  have init: "isInitialized (contributions (run L (c # cs) s) cid who) \<longleftrightarrow>
            isInitialized (contributions s cid who) \<or> (\<exists>v. (cid, who, v) \<in> set (accepted L (c # cs) s))"
    unfolding accepted_Cons[of L c cs s] using st IH by auto
  show ?case using sum init by blast
qed

lemma totals_from:
  assumes "storage_kept L"
  shows "unused_above s \<Longrightarrow> \<not> ended (campaigns (run L cs s) cid) \<Longrightarrow>
         plain64 (totalRaised (campaigns (run L cs s) cid)) =
           plain64 (totalRaised (campaigns s cid)) + raised_for cid (accepted L cs s)"
proof (induction cs arbitrary: s)
  case Nil
  show ?case by (simp add: raised_for_def)
next
  case (Cons c cs)
  let ?s' = "snd (perform L c s)"
  have u: "unused_above ?s'" using unused_above_perform[OF assms Cons.prems(1)] .
  have fin: "\<not> ended (campaigns (run L cs ?s') cid)" using Cons.prems(2) by simp
  have open': "\<not> ended (campaigns ?s' cid)"
    using settlements_from[OF assms u, of cid cs] fin by auto
  have "\<not> settled cid c (fst (perform L c s))"
    using step_settled[OF assms, of cid c s] open' by blast
  from step_unsettled[OF assms Cons.prems(1) this]
  have "plain64 (totalRaised (campaigns ?s' cid)) =
          plain64 (totalRaised (campaigns s cid)) + raised_for cid (accepted L [c] s)" by blast
  with Cons.IH[OF u fin] show ?case
    unfolding accepted_Cons[of L c cs s] raised_for_append by (simp add: add.assoc)
qed

subsection \<open>Permissions granted by one call\<close>

lemma create_grants:
  assumes "fst (perform L (CreateCampaign e nm tgt dl) s) = Created cid"
    and "s' = snd (perform L (CreateCampaign e nm tgt dl) s)"
  shows "isAllowed s' (handle64 (target (campaigns s' cid))) (msg_sender e) \<and>
         isAllowed s' (handle64 (target (campaigns s' cid))) (self s) \<and>
         isAllowed s' (handle64 (totalRaised (campaigns s' cid))) (msg_sender e) \<and>
         isAllowed s' (handle64 (totalRaised (campaigns s' cid))) (self s) \<and>
         creator (campaigns s' cid) = msg_sender e \<and>
         plain64 (target (campaigns s' cid)) = tgt \<and>
         plain64 (totalRaised (campaigns s' cid)) = 0"
proof -
  from perform_Created[OF assms(1)] have
    c: "fst (createCampaign e nm tgt dl s) = Inr cid" "s' = snd (createCampaign e nm tgt dl s)"
    using assms(2) by auto
  show ?thesis
    unfolding isAllowed_def c(2) createCampaign_Inr(8,9)[OF c(1)] by simp
qed

lemma contribution_grants:
  assumes "fst (perform L (OnConfidentialTransferReceived e operator from amt data) s) = Accepted b"
    and "abi_decode_uint256 data = Some cid"
    and "s' = snd (perform L (OnConfidentialTransferReceived e operator from amt data) s)"
  shows "isAllowed s' (handle64 (totalRaised (campaigns s' cid))) (self s) \<and>
         isAllowed s' (handle64 (totalRaised (campaigns s' cid))) (creator (campaigns s' cid)) \<and>
         isAllowed s' (handle64 (totalRaised (campaigns s' cid))) from \<and>
         isAllowed s' (handle64 (contributions s' cid from)) (self s) \<and>
         isAllowed s' (handle64 (contributions s' cid from)) from"
proof -
  from perform_Accepted[OF assms(1)] assms(2,3)
  have c: "s' = snd (contribute e cid from amt s)" by auto
  have t: "handle64 (totalRaised (campaigns s' cid)) = nextHandle s"
    "creator (campaigns s' cid) = creator (campaigns s cid)"
    unfolding c contribute_campaigns by simp_all
  show ?thesis
    unfolding isAllowed_def t unfolding c contribute_acl[of e cid "from" amt s] by simp
qed

lemma payout_grant:
  assumes "storage_kept L" and "fst (perform L (EndCampaign e cid) s) = Paid p"
    and "s' = snd (perform L (EndCampaign e cid) s)"
  shows "isAllowed s' (handle64 (totalRaised (campaigns s cid))) (creator (campaigns s cid)) \<and>
         msg_sender e = creator (campaigns s cid)"
proof -
  from perform_Paid[OF assms(2)] assms(3)
  have c: "fst (endCampaign L e cid s) = Inr p" "s' = snd (endCampaign L e cid s)" by auto
  show ?thesis
    unfolding isAllowed_def c(2)
    using endCampaign_Inr(2,7)[OF assms(1) c(1)] by auto
qed

section \<open>The claims\<close>

subsection \<open>Rejected callbacks\<close>

text \<open>
  C3. \<open>onConfidentialTransferReceived\<close> checks, in this order: the caller is the payment
  token (\<open>Unsupported token\<close>, the spec's \<open>AuthorizationError\<close>), the campaign of the decoded
  id exists (\<open>Campaign not found\<close>, \<open>NotFoundError\<close>), it has not ended
  (\<open>Campaign already ended\<close>, \<open>AlreadyEndedError\<close>) and \<open>block.timestamp\<close> does not exceed its
  deadline (\<open>Campaign expired\<close>, \<open>ExpiredError\<close>). The call fails with the message of the
  first check that does not hold, and whenever it fails the storage at the point of failure
  is the storage the call started with.
\<close>

theorem callback_rejections:
  "(msg_sender e \<noteq> paymentToken s \<longrightarrow>
      onConfidentialTransferReceived e operator from amount data s
        = (Inl (Error ''Unsupported token''), s)) \<and>
   (msg_sender e = paymentToken s \<and> abi_decode_uint256 data = Some cid \<and>
    creator (campaigns s cid) = 0 \<longrightarrow>
      onConfidentialTransferReceived e operator from amount data s
        = (Inl (Error ''Campaign not found''), s)) \<and>
   (msg_sender e = paymentToken s \<and> abi_decode_uint256 data = Some cid \<and>
    creator (campaigns s cid) \<noteq> 0 \<and> ended (campaigns s cid) \<longrightarrow>
      onConfidentialTransferReceived e operator from amount data s
        = (Inl (Error ''Campaign already ended''), s)) \<and>
   (msg_sender e = paymentToken s \<and> abi_decode_uint256 data = Some cid \<and>
    creator (campaigns s cid) \<noteq> 0 \<and> \<not> ended (campaigns s cid) \<and>
    deadline (campaigns s cid) < block_timestamp e \<longrightarrow>
      onConfidentialTransferReceived e operator from amount data s
        = (Inl (Error ''Campaign expired''), s)) \<and>
   (\<forall>err. fst (onConfidentialTransferReceived e operator from amount data s) = Inl err \<longrightarrow>
      snd (onConfidentialTransferReceived e operator from amount data s) = s \<and>
      perform token (OnConfidentialTransferReceived e operator from amount data) s = (Failed err, s))"
  by (auto simp add: onConfidentialTransferReceived_def transact_def Let_def
           split: option.splits prod.splits)

theorem callback_rejections_witness:
  "onConfidentialTransferReceived \<lparr>msg_sender = 2, block_timestamp = 200\<rparr> 2 2 (Enc64 50 750)
      (abi_encode_uint256 1) after_launch
     = (Inl (Error ''Unsupported token''), after_launch) \<and>
   onConfidentialTransferReceived \<lparr>msg_sender = 7, block_timestamp = 200\<rparr> 2 2 (Enc64 50 750)
      (abi_encode_uint256 1) (deployed 7 9)
     = (Inl (Error ''Campaign not found''), deployed 7 9) \<and>
   onConfidentialTransferReceived \<lparr>msg_sender = 7, block_timestamp = 400\<rparr> 2 2 (Enc64 50 750)
      (abi_encode_uint256 1) after_close
     = (Inl (Error ''Campaign already ended''), after_close) \<and>
   onConfidentialTransferReceived \<lparr>msg_sender = 7, block_timestamp = 3701\<rparr> 2 2 (Enc64 50 750)
      (abi_encode_uint256 1) after_launch
     = (Inl (Error ''Campaign expired''), after_launch)"
  using callback_rejections
          [of "\<lparr>msg_sender = 2, block_timestamp = 200\<rparr>" after_launch 2 2 "Enc64 50 750"
              "abi_encode_uint256 1" 1 confidentialTransfer]
        callback_rejections
          [of "\<lparr>msg_sender = 7, block_timestamp = 200\<rparr>" "deployed 7 9" 2 2 "Enc64 50 750"
              "abi_encode_uint256 1" 1 confidentialTransfer]
        callback_rejections
          [of "\<lparr>msg_sender = 7, block_timestamp = 400\<rparr>" after_close 2 2 "Enc64 50 750"
              "abi_encode_uint256 1" 1 confidentialTransfer]
        callback_rejections
          [of "\<lparr>msg_sender = 7, block_timestamp = 3701\<rparr>" after_launch 2 2 "Enc64 50 750"
              "abi_encode_uint256 1" 1 confidentialTransfer]
  by (simp add: after_launch_state after_close_state decode_one deployed_state no_campaign_def)

subsection \<open>The state the token is called in\<close>

text \<open>
  C5, as the code has it. When the checks of \<open>endCampaign\<close> pass, the token's transfer is
  called in the state \<open>settle\<close> leaves: the campaign has \<open>ended = true\<close> and a fresh
  encryption of zero as \<open>totalRaised\<close>. In that state every call of \<open>endCampaign\<close> and every
  callback for the same campaign id fails and writes nothing, whoever calls and at whatever
  time, and \<open>isCampaignActive\<close> is false. The message is \<open>Campaign already ended\<close> when the
  caller passes the check of the caller, which comes first: the creator for \<open>endCampaign\<close>,
  the token for the callback. Any other caller gets \<open>Only creator\<close> or \<open>Unsupported token\<close>.
\<close>

theorem settled_before_transfer:
  assumes "creator (campaigns s cid) \<noteq> 0" and "msg_sender e = creator (campaigns s cid)"
    and "\<not> ended (campaigns s cid)"
  shows
    "endCampaign token e cid s =
       (case token (self s) (msg_sender e) (totalRaised (campaigns s cid)) (snd (settle e cid s)) of
          (Inl err, s6) \<Rightarrow> (Inl err, s6)
        | (Inr p, s6) \<Rightarrow> (Inr p, s6\<lparr>events := events s6 @ [CampaignEnded cid (msg_sender e) p]\<rparr>)) \<and>
     ended (campaigns (snd (settle e cid s)) cid) \<and>
     totalRaised (campaigns (snd (settle e cid s)) cid) = Enc64 (nextHandle s) 0 \<and>
     (\<forall>token2 e2. endCampaign token2 e2 cid (snd (settle e cid s)) =
        (Inl (Error (if msg_sender e2 = creator (campaigns s cid)
                     then ''Campaign already ended'' else ''Only creator'')),
         snd (settle e cid s))) \<and>
     (\<forall>e2 operator from amount data. abi_decode_uint256 data = Some cid \<longrightarrow>
        onConfidentialTransferReceived e2 operator from amount data (snd (settle e cid s)) =
          (Inl (Error (if msg_sender e2 = paymentToken s
                       then ''Campaign already ended'' else ''Unsupported token'')),
           snd (settle e cid s))) \<and>
     (\<forall>e2. \<not> isCampaignActive e2 cid (snd (settle e cid s)))"
proof -
  let ?m = "snd (settle e cid s)"
  have m: "creator (campaigns ?m cid) = creator (campaigns s cid)" "ended (campaigns ?m cid)"
    "totalRaised (campaigns ?m cid) = Enc64 (nextHandle s) 0" "paymentToken ?m = paymentToken s"
    by (simp_all add: settle_fields)
  have again: "endCampaign token2 e2 cid ?m =
        (Inl (Error (if msg_sender e2 = creator (campaigns s cid)
                     then ''Campaign already ended'' else ''Only creator'')), ?m)" for token2 e2
    using m(1,2) assms(1) by (simp add: endCampaign_def Let_def)
  have callback: "onConfidentialTransferReceived e2 operator from amount data ?m =
          (Inl (Error (if msg_sender e2 = paymentToken s
                       then ''Campaign already ended'' else ''Unsupported token'')), ?m)"
    if "abi_decode_uint256 data = Some cid" for e2 operator "from" amount data
    using m(1,2,4) assms(1) that by (simp add: onConfidentialTransferReceived_def Let_def)
  have inactive: "\<not> isCampaignActive e2 cid ?m" for e2
    using m(2) by (simp add: isCampaignActive_def Let_def)
  show ?thesis
    using endCampaign_guarded[OF assms, of token] m(2,3) again callback inactive by blast
qed

theorem settled_before_transfer_witness:
  "endCampaign confidentialTransfer \<lparr>msg_sender = 1, block_timestamp = 300\<rparr> 1
     (snd (settle \<lparr>msg_sender = 1, block_timestamp = 300\<rparr> 1 after_pledge))
   = (Inl (Error ''Campaign already ended''),
      snd (settle \<lparr>msg_sender = 1, block_timestamp = 300\<rparr> 1 after_pledge)) \<and>
   onConfidentialTransferReceived \<lparr>msg_sender = 7, block_timestamp = 300\<rparr> 2 2 (Enc64 51 10)
     (abi_encode_uint256 1) (snd (settle \<lparr>msg_sender = 1, block_timestamp = 300\<rparr> 1 after_pledge))
   = (Inl (Error ''Campaign already ended''),
      snd (settle \<lparr>msg_sender = 1, block_timestamp = 300\<rparr> 1 after_pledge)) \<and>
   totalRaised (campaigns (snd (settle \<lparr>msg_sender = 1, block_timestamp = 300\<rparr> 1 after_pledge)) 1)
   = Enc64 7 0"
  using settled_before_transfer
          [of after_pledge 1 "\<lparr>msg_sender = 1, block_timestamp = 300\<rparr>" confidentialTransfer]
  by (simp add: after_pledge_state decode_one)

text \<open>
  C5 as stated fails: during the creator's \<open>endCampaign(1)\<close> of the tests' scenario, a
  re-entrant \<open>endCampaign(1)\<close> made by the token (address 7) fails with \<open>Only creator\<close>, not
  with \<open>Campaign already ended\<close>.
\<close>

theorem reentrant_endCampaign_counterexample:
  "endCampaign confidentialTransfer \<lparr>msg_sender = 7, block_timestamp = 300\<rparr> 1
     (snd (settle \<lparr>msg_sender = 1, block_timestamp = 300\<rparr> 1 after_pledge))
   = (Inl (Error ''Only creator''),
      snd (settle \<lparr>msg_sender = 1, block_timestamp = 300\<rparr> 1 after_pledge)) \<and>
   fst (endCampaign confidentialTransfer \<lparr>msg_sender = 7, block_timestamp = 300\<rparr> 1
     (snd (settle \<lparr>msg_sender = 1, block_timestamp = 300\<rparr> 1 after_pledge)))
   \<noteq> Inl (Error ''Campaign already ended'')"
  by (simp add: endCampaign_def Let_def settle_fields after_pledge_state)

subsection \<open>Rejected creations\<close>

text \<open>
  C6. \<open>createCampaign\<close> with an empty name, a zero target or a deadline that is not
  strictly after \<open>block.timestamp\<close> fails with the message of the first check that does not
  hold (the spec's \<open>ValidationError\<close>). The storage at the point of failure is the storage
  the call started with: nothing has been written, so the campaign counter and every
  campaign record are as before, also once the transaction has reverted.
\<close>

theorem createCampaign_invalid_rejected:
  "(nm = [] \<longrightarrow> createCampaign e nm tgt dl s = (Inl (Error ''Name required''), s)) \<and>
   (nm \<noteq> [] \<and> tgt = 0 \<longrightarrow> createCampaign e nm tgt dl s = (Inl (Error ''Target required''), s)) \<and>
   (nm \<noteq> [] \<and> tgt \<noteq> 0 \<and> dl \<le> block_timestamp e \<longrightarrow>
      createCampaign e nm tgt dl s = (Inl (Error ''Deadline must be in the future''), s)) \<and>
   (nm = [] \<or> tgt = 0 \<or> dl \<le> block_timestamp e \<longrightarrow>
      (\<exists>msg. perform token (CreateCampaign e nm tgt dl) s = (Failed (Error msg), s)) \<and>
      campaignCount (snd (perform token (CreateCampaign e nm tgt dl) s)) = campaignCount s \<and>
      campaigns (snd (perform token (CreateCampaign e nm tgt dl) s)) = campaigns s)"
  by (auto simp add: createCampaign_def transact_def word_neq_0_conv)

theorem createCampaign_invalid_rejected_witness:
  "createCampaign \<lparr>msg_sender = 1, block_timestamp = 100\<rparr> [] 1000 200 (deployed 7 9)
     = (Inl (Error ''Name required''), deployed 7 9) \<and>
   createCampaign \<lparr>msg_sender = 1, block_timestamp = 100\<rparr> ''Test Launch'' 0 200 (deployed 7 9)
     = (Inl (Error ''Target required''), deployed 7 9) \<and>
   createCampaign \<lparr>msg_sender = 1, block_timestamp = 100\<rparr> ''Test Launch'' 1000 100 (deployed 7 9)
     = (Inl (Error ''Deadline must be in the future''), deployed 7 9) \<and>
   campaignCount (snd (perform confidentialTransfer
     (CreateCampaign \<lparr>msg_sender = 1, block_timestamp = 100\<rparr> ''Test Launch'' 1000 100) (deployed 7 9))) = 0"
  using createCampaign_invalid_rejected
          [of "[]" "\<lparr>msg_sender = 1, block_timestamp = 100\<rparr>" 1000 200 "deployed 7 9" confidentialTransfer]
        createCampaign_invalid_rejected
          [of "''Test Launch''" "\<lparr>msg_sender = 1, block_timestamp = 100\<rparr>" 0 200 "deployed 7 9" confidentialTransfer]
        createCampaign_invalid_rejected
          [of "''Test Launch''" "\<lparr>msg_sender = 1, block_timestamp = 100\<rparr>" 1000 100 "deployed 7 9" confidentialTransfer]
  by (simp add: deployed_def)

subsection \<open>Campaign ids\<close>

text \<open>
  C7. Over any sequence of calls made after deployment, with a token that does not write
  this contract's storage, the ids returned by the successful calls of \<open>createCampaign\<close> are
  1, 2, 3, ... in this order: strictly increasing as unsigned numbers (the checked increment
  fails rather than wraps), hence pairwise different, and never 0. At every moment the slots
  beyond the counter, the next id among them, and the slot 0 hold no campaign.
\<close>

theorem created_ids_increasing:
  assumes "storage_kept token"
  shows
    "sorted_wrt (<) (created_ids (outcomes token cs (deployed t a))) \<and>
     distinct (created_ids (outcomes token cs (deployed t a))) \<and>
     0 \<notin> set (created_ids (outcomes token cs (deployed t a))) \<and>
     (\<forall>k < length (created_ids (outcomes token cs (deployed t a))).
        created_ids (outcomes token cs (deployed t a)) ! k = of_nat k + 1) \<and>
     unused_above (run token cs (deployed t a)) \<and>
     campaigns (run token cs (deployed t a)) 0 = no_campaign"
proof -
  let ?ids = "created_ids (outcomes token cs (deployed t a))"
  from created_ids_from[OF assms, of cs "deployed t a"]
  have s: "sorted_wrt (<) ?ids" and pos: "\<forall>i \<in> set ?ids. 0 < i"
    and nth: "\<forall>k < length ?ids. ?ids ! k = of_nat k + 1"
    by (simp_all add: deployed_state add.commute)
  have d: "distinct ?ids" using s by (simp add: strict_sorted_iff)
  have z: "0 \<notin> set ?ids" using pos by auto
  show ?thesis
    using s d z nth unused_above_run[OF assms unused_above_deployed]
      slot_zero_run[OF assms deployed_state(4)] by blast
qed

theorem created_ids_increasing_witness:
  "storage_kept confidentialTransfer \<and>
   created_ids (outcomes confidentialTransfer [launch, pledge, launch] (deployed 7 9)) = [1, 2] \<and>
   sorted_wrt (<) (created_ids (outcomes confidentialTransfer [launch, pledge, launch] (deployed 7 9)))"
  using created_ids_increasing [OF confidentialTransfer_kept, of "[launch, pledge, launch]" 7 9]
        confidentialTransfer_kept
  by (simp add: launched funded relaunched)

subsection \<open>The acceptance flag\<close>

text \<open>
  C10. A call of \<open>onConfidentialTransferReceived\<close> either fails, or returns a ciphertext of
  \<open>true\<close> that the calling token may decrypt: no call returns a ciphertext of \<open>false\<close>, so
  every rejection is an error.
\<close>

theorem callback_accepts_or_fails:
  "(\<exists>err. onConfidentialTransferReceived e operator from amount data s = (Inl err, s)) \<or>
   (\<exists>h s'. onConfidentialTransferReceived e operator from amount data s = (Inr (EncB h True), s') \<and>
      plainB (EncB h True) \<and> isAllowed s' h (msg_sender e) \<and> msg_sender e = paymentToken s)"
proof (cases "fst (onConfidentialTransferReceived e operator from amount data s)")
  case (Inl err)
  then show ?thesis using callback_Inl[OF Inl] by (metis prod.collapse)
next
  case (Inr b)
  from callback_Inr[OF Inr] obtain cid where
    c: "b = fst (contribute e cid from amount s)"
       "snd (onConfidentialTransferReceived e operator from amount data s) = snd (contribute e cid from amount s)"
       "msg_sender e = paymentToken s"
    by blast
  obtain h where h: "b = EncB h True" using contribute_accepted[of e cid "from" amount s] c(1) by auto
  have "isAllowed (snd (contribute e cid from amount s)) (handleB (fst (contribute e cid from amount s))) (msg_sender e)"
    unfolding isAllowed_def contribute_acl[of e cid "from" amount s] by simp
  moreover have "handleB (fst (contribute e cid from amount s)) = h"
    using c(1) h by (metis handleB.simps(2))
  ultimately have "isAllowed (snd (onConfidentialTransferReceived e operator from amount data s)) h (msg_sender e)"
    using c(2) by simp
  then show ?thesis using Inr h c(3) by (metis plainB.simps(2) prod.collapse)
qed

theorem callback_accepts_or_fails_witness:
  "onConfidentialTransferReceived \<lparr>msg_sender = 7, block_timestamp = 200\<rparr> 2 2 (Enc64 50 750)
     (abi_encode_uint256 1) after_launch = (Inr (EncB 6 True), after_pledge) \<and>
   isAllowed after_pledge 6 7"
proof -
  have run: "fst (onConfidentialTransferReceived \<lparr>msg_sender = 7, block_timestamp = 200\<rparr> 2 2
      (Enc64 50 750) (abi_encode_uint256 1) after_launch) = Inr (EncB 6 True)"
    "snd (onConfidentialTransferReceived \<lparr>msg_sender = 7, block_timestamp = 200\<rparr> 2 2
      (Enc64 50 750) (abi_encode_uint256 1) after_launch) = after_pledge"
    using funded[of confidentialTransfer]
    by (auto simp add: pledge_def transact_def split: prod.splits sum.splits)
  show ?thesis
    using callback_accepts_or_fails
            [of "\<lparr>msg_sender = 7, block_timestamp = 200\<rparr>" 2 2 "Enc64 50 750"
                "abi_encode_uint256 1" after_launch] run
    by auto
qed

subsection \<open>Totals and entries are the sums of the accepted amounts, as 64-bit values\<close>

text \<open>
  C1, as the code has it. Take any sequence of calls made after deployment, with a token
  that does not write this contract's storage. The accepted contributions are the callbacks
  that returned; by \<open>perform_Accepted\<close> each was made by the token for a campaign that
  existed, had not ended and whose deadline had not passed. For every campaign that has not
  ended, the decryption of \<open>totalRaised\<close> is the sum of the amounts accepted for it taken
  modulo \<open>2 ^ 64\<close>, and it is the sum itself whenever that sum fits 64 bits. For every
  campaign and every account, the decryption of the contribution entry is the sum of the
  amounts accepted for that campaign from that account modulo \<open>2 ^ 64\<close>, the sum itself
  whenever it fits 64 bits, and the entry is initialised exactly when there is such a
  contribution.
\<close>

theorem totals_are_sums_mod:
  assumes "storage_kept token"
    and "s = run token cs (deployed t a)"
    and "acc = accepted token cs (deployed t a)"
  shows
    "(\<not> ended (campaigns s cid) \<longrightarrow>
        plain64 (totalRaised (campaigns s cid)) = raised_for cid acc \<and>
        unat (plain64 (totalRaised (campaigns s cid))) = raised_for_nat cid acc mod 2 ^ 64 \<and>
        (raised_for_nat cid acc < 2 ^ 64 \<longrightarrow>
           unat (plain64 (totalRaised (campaigns s cid))) = raised_for_nat cid acc)) \<and>
     plain64 (contributions s cid who) = contributed_by cid who acc \<and>
     unat (plain64 (contributions s cid who)) = contributed_by_nat cid who acc mod 2 ^ 64 \<and>
     (contributed_by_nat cid who acc < 2 ^ 64 \<longrightarrow>
        unat (plain64 (contributions s cid who)) = contributed_by_nat cid who acc) \<and>
     (isInitialized (contributions s cid who) \<longleftrightarrow> (\<exists>v. (cid, who, v) \<in> set acc))"
proof -
  have total: "plain64 (totalRaised (campaigns s cid)) = raised_for cid acc"
    if "\<not> ended (campaigns s cid)"
    using totals_from[OF assms(1) unused_above_deployed[of t a], where cs=cs and cid=cid] that
    unfolding assms(2,3) by (simp add: deployed_state no_campaign_def)
  have entry: "plain64 (contributions s cid who) = contributed_by cid who acc"
    "isInitialized (contributions s cid who) \<longleftrightarrow> (\<exists>v. (cid, who, v) \<in> set acc)"
    using entries_from[OF assms(1), of cs "deployed t a" cid who]
    unfolding assms(2,3) by (simp_all add: deployed_state isInitialized_def)
  have tn: "unat (plain64 (totalRaised (campaigns s cid))) = raised_for_nat cid acc mod 2 ^ 64"
    if "\<not> ended (campaigns s cid)"
    using total[OF that] raised_for_nat_mod[of cid acc] by simp
  have en: "unat (plain64 (contributions s cid who)) = contributed_by_nat cid who acc mod 2 ^ 64"
    using entry(1) contributed_by_nat_mod[of cid who acc] by simp
  show ?thesis using total entry tn en by simp
qed

theorem totals_are_sums_mod_witness:
  "storage_kept confidentialTransfer \<and>
   accepted confidentialTransfer [launch, pledge, pledge] (deployed 7 9) = [(1, 2, 750), (1, 2, 750)] \<and>
   \<not> ended (campaigns (run confidentialTransfer [launch, pledge, pledge] (deployed 7 9)) 1) \<and>
   raised_for_nat 1 (accepted confidentialTransfer [launch, pledge, pledge] (deployed 7 9)) = 1500 \<and>
   contributed_by_nat 1 2 (accepted confidentialTransfer [launch, pledge, pledge] (deployed 7 9)) = 1500 \<and>
   unat (plain64 (totalRaised
     (campaigns (run confidentialTransfer [launch, pledge, pledge] (deployed 7 9)) 1))) = 1500 \<and>
   unat (plain64 (contributions
     (run confidentialTransfer [launch, pledge, pledge] (deployed 7 9)) 1 2)) = 1500 \<and>
   isInitialized (contributions (run confidentialTransfer [launch, pledge, pledge] (deployed 7 9)) 1 2)"
  using totals_are_sums_mod [OF confidentialTransfer_kept refl refl,
          of "[launch, pledge, pledge]" 7 9 1 2]
        confidentialTransfer_kept
  by (simp add: scenario_contributions launched funded pledged_again after_second_pledge_state
        raised_for_def contributed_by_def raised_for_nat_def contributed_by_nat_def
        isInitialized_def)

text \<open>
  C1 as stated fails: after the creation of campaign 1, the token's callbacks for the
  amounts \<open>2 ^ 64 - 1\<close> and 1 are both accepted and the campaign has not ended; the accepted
  amounts sum to \<open>2 ^ 64\<close>, and both \<open>totalRaised\<close> and the contributor's entry decrypt to 0.
\<close>

theorem total_wraps_counterexample:
  "accepted confidentialTransfer [launch, pledge_max, pledge_one] (deployed 7 9)
     = [(1, 2, 18446744073709551615), (1, 2, 1)] \<and>
   \<not> ended (campaigns (run confidentialTransfer [launch, pledge_max, pledge_one] (deployed 7 9)) 1) \<and>
   raised_for_nat 1 (accepted confidentialTransfer [launch, pledge_max, pledge_one] (deployed 7 9))
     = 18446744073709551616 \<and>
   unat (plain64 (totalRaised
     (campaigns (run confidentialTransfer [launch, pledge_max, pledge_one] (deployed 7 9)) 1))) = 0 \<and>
   contributed_by_nat 1 2 (accepted confidentialTransfer [launch, pledge_max, pledge_one] (deployed 7 9))
     = 18446744073709551616 \<and>
   unat (plain64 (contributions
     (run confidentialTransfer [launch, pledge_max, pledge_one] (deployed 7 9)) 1 2)) = 0"
  by (simp add: launched maxed wrapped overflow_contributions after_wrap_state
        raised_for_nat_def contributed_by_nat_def)

subsection \<open>Ending a campaign\<close>

text \<open>
  C2, as the code has it. \<open>endCampaign\<close> returns exactly when the campaign exists (its
  creator is not the zero address), the caller is its creator, it has not ended and the
  token's transfer of the payout, called last, returns: neither \<open>block.timestamp\<close>, the
  deadline nor the target is read. It fails with \<open>Campaign not found\<close> (\<open>NotFoundError\<close>),
  \<open>Only creator\<close> (\<open>AuthorizationError\<close>) or \<open>Campaign already ended\<close>
  (\<open>AlreadyEndedError\<close>), whichever check fails first, with nothing written; when the three
  checks pass and the token's transfer fails, it fails with the token's error and the
  transaction leaves the state as it was. After a call that returned, with a token that
  does not write this contract's storage, every further call on the same id, by any caller,
  at any time and whatever the token would do, fails before the token is called, with the
  storage and the balances as they were: with \<open>Campaign already ended\<close> when the caller is
  the creator and with \<open>Only creator\<close> otherwise.
\<close>

theorem endCampaign_outcomes:
  assumes "storage_kept token"
  shows
    "((\<exists>p. fst (endCampaign token e cid s) = Inr p) \<longleftrightarrow>
        creator (campaigns s cid) \<noteq> 0 \<and> msg_sender e = creator (campaigns s cid) \<and>
        \<not> ended (campaigns s cid) \<and>
        (\<exists>p. fst (token (self s) (msg_sender e) (totalRaised (campaigns s cid))
                    (snd (settle e cid s))) = Inr p)) \<and>
     (creator (campaigns s cid) = 0 \<longrightarrow>
        endCampaign token e cid s = (Inl (Error ''Campaign not found''), s)) \<and>
     (creator (campaigns s cid) \<noteq> 0 \<and> msg_sender e \<noteq> creator (campaigns s cid) \<longrightarrow>
        endCampaign token e cid s = (Inl (Error ''Only creator''), s)) \<and>
     (creator (campaigns s cid) \<noteq> 0 \<and> msg_sender e = creator (campaigns s cid) \<and>
      ended (campaigns s cid) \<longrightarrow>
        endCampaign token e cid s = (Inl (Error ''Campaign already ended''), s)) \<and>
     (\<forall>err. creator (campaigns s cid) \<noteq> 0 \<and> msg_sender e = creator (campaigns s cid) \<and>
        \<not> ended (campaigns s cid) \<and>
        fst (token (self s) (msg_sender e) (totalRaised (campaigns s cid))
               (snd (settle e cid s))) = Inl err \<longrightarrow>
        fst (endCampaign token e cid s) = Inl err \<and>
        perform token (EndCampaign e cid) s = (Failed err, s)) \<and>
     (\<forall>p e2 token2. fst (endCampaign token e cid s) = Inr p \<longrightarrow>
        endCampaign token2 e2 cid (snd (endCampaign token e cid s))
          = (Inl (Error (if msg_sender e2 = creator (campaigns s cid)
                         then ''Campaign already ended'' else ''Only creator'')),
             snd (endCampaign token e cid s)))"
proof -
  have iff: "(\<exists>p. fst (endCampaign token e cid s) = Inr p) \<longleftrightarrow>
        creator (campaigns s cid) \<noteq> 0 \<and> msg_sender e = creator (campaigns s cid) \<and>
        \<not> ended (campaigns s cid) \<and>
        (\<exists>p. fst (token (self s) (msg_sender e) (totalRaised (campaigns s cid))
                    (snd (settle e cid s))) = Inr p)"
    using endCampaign_Inr_token[where L=token and e=e and cid=cid and s=s]
      endCampaign_returns[where L=token and e=e and cid=cid and s=s] by blast
  have fails: "fst (endCampaign token e cid s) = Inl err \<and>
        perform token (EndCampaign e cid) s = (Failed err, s)"
    if "creator (campaigns s cid) \<noteq> 0" "msg_sender e = creator (campaigns s cid)"
      "\<not> ended (campaigns s cid)"
      "fst (token (self s) (msg_sender e) (totalRaised (campaigns s cid))
               (snd (settle e cid s))) = Inl err" for err
  proof -
    have f: "fst (endCampaign token e cid s) = Inl err"
      using endCampaign_token_fails[where L=token and s=s and e=e and cid=cid and err=err] that
      by blast
    then show ?thesis
      by (cases "endCampaign token e cid s") (simp add: transact_def)
  qed
  have again: "endCampaign token2 e2 cid (snd (endCampaign token e cid s))
          = (Inl (Error (if msg_sender e2 = creator (campaigns s cid)
                         then ''Campaign already ended'' else ''Only creator'')),
             snd (endCampaign token e cid s))"
    if ok: "fst (endCampaign token e cid s) = Inr p" for p e2 token2
  proof -
    let ?s' = "snd (endCampaign token e cid s)"
    have c: "creator (campaigns ?s' cid) = creator (campaigns s cid)" "ended (campaigns ?s' cid)"
      using endCampaign_Inr(6)[OF assms ok] by simp_all
    have ex: "creator (campaigns ?s' cid) \<noteq> 0" using c(1) endCampaign_Inr(1)[OF assms ok] by simp
    show ?thesis
      using endCampaign_rejections(2,3)[where s="?s'" and cid=cid and e=e2 and L=token2] c ex
      by simp
  qed
  show ?thesis
    using iff fails again endCampaign_rejections[where s=s and cid=cid and e=e and L=token]
    by blast
qed

lemma close_returns:
  "fst (endCampaign confidentialTransfer \<lparr>msg_sender = 1, block_timestamp = 300\<rparr> 1 after_pledge)
     = Inr (Enc64 8 0)"
  "snd (endCampaign confidentialTransfer \<lparr>msg_sender = 1, block_timestamp = 300\<rparr> 1 after_pledge)
     = after_close"
  using closed by (auto simp add: close_def transact_def split: prod.splits sum.splits)

theorem endCampaign_outcomes_witness:
  "storage_kept confidentialTransfer \<and>
   fst (endCampaign confidentialTransfer \<lparr>msg_sender = 1, block_timestamp = 300\<rparr> 1 after_pledge)
     = Inr (Enc64 8 0) \<and>
   endCampaign confidentialTransfer \<lparr>msg_sender = 1, block_timestamp = 300\<rparr> 2 after_launch
     = (Inl (Error ''Campaign not found''), after_launch) \<and>
   endCampaign confidentialTransfer \<lparr>msg_sender = 2, block_timestamp = 300\<rparr> 1 after_launch
     = (Inl (Error ''Only creator''), after_launch) \<and>
   endCampaign confidentialTransfer \<lparr>msg_sender = 1, block_timestamp = 4000\<rparr> 1 after_close
     = (Inl (Error ''Campaign already ended''), after_close) \<and>
   endCampaign reverting_token \<lparr>msg_sender = 2, block_timestamp = 4000\<rparr> 1 after_close
     = (Inl (Error ''Only creator''), after_close) \<and>
   perform reverting_token (EndCampaign \<lparr>msg_sender = 1, block_timestamp = 300\<rparr> 1) after_launch
     = (Failed (CustomError ''transfer reverted''), after_launch)"
  using endCampaign_outcomes [OF confidentialTransfer_kept,
          of "\<lparr>msg_sender = 1, block_timestamp = 300\<rparr>" 1 after_pledge]
        endCampaign_outcomes [OF confidentialTransfer_kept,
          of "\<lparr>msg_sender = 1, block_timestamp = 300\<rparr>" 2 after_launch]
        endCampaign_outcomes [OF confidentialTransfer_kept,
          of "\<lparr>msg_sender = 2, block_timestamp = 300\<rparr>" 1 after_launch]
        endCampaign_outcomes [OF reverting_token_kept,
          of "\<lparr>msg_sender = 1, block_timestamp = 300\<rparr>" 1 after_launch]
        confidentialTransfer_kept
  by (auto simp add: after_launch_state after_pledge_state close_returns reverting_token_def)

text \<open>
  C2 as stated fails twice. With a token whose transfer reverts, the creator's
  \<open>endCampaign(1)\<close> on the existing, not ended campaign 1 fails. And after the campaign has
  been settled, \<open>endCampaign(1)\<close> called by another account (address 2) fails with
  \<open>Only creator\<close>, not with \<open>Campaign already ended\<close>.
\<close>

theorem endCampaign_counterexample:
  "creator (campaigns after_launch 1) \<noteq> 0 \<and>
   msg_sender \<lparr>msg_sender = 1, block_timestamp = 300\<rparr> = creator (campaigns after_launch 1) \<and>
   \<not> ended (campaigns after_launch 1) \<and>
   fst (endCampaign reverting_token \<lparr>msg_sender = 1, block_timestamp = 300\<rparr> 1 after_launch)
     = Inl (CustomError ''transfer reverted'') \<and>
   fst (perform confidentialTransfer close after_pledge) = Paid (Enc64 8 0) \<and>
   endCampaign confidentialTransfer \<lparr>msg_sender = 2, block_timestamp = 400\<rparr> 1 after_close
     = (Inl (Error ''Only creator''), after_close)"
  by (simp add: after_launch_state after_close_state closed endCampaign_def Let_def
        reverting_token_def settle_def fhe_defs split: prod.splits)

subsection \<open>The ended flag and the reset of the total\<close>

lemma unat_plus_mod64: "unat (x + y :: 64 word) = (unat x + unat y) mod 2 ^ 64"
  by (simp add: unat_word_ariths)

lemma unat_plus_no_wrap:
  "unat x + unat y < 2 ^ 64 \<Longrightarrow> unat (x :: 64 word) \<le> unat (x + y)"
  by (simp add: unat_plus_mod64)

text \<open>
  C4, as the code has it. Take any state reached from deployment by a sequence of calls,
  with a token that does not write this contract's storage, and any further call. A
  campaign that has ended stays ended, with its whole record unchanged. A campaign's
  \<open>ended\<close> flag turns true only in a successful \<open>endCampaign\<close> of that campaign, which also
  replaces \<open>totalRaised\<close> by a fresh encryption of zero. Every other call leaves the flag
  as it is and changes the decrypted \<open>totalRaised\<close> only by adding, as 64-bit values, the
  amount of an accepted contribution to that campaign: the total is unchanged when the call
  is no such contribution, and it does not decrease when the sum fits 64 bits. Over the
  whole sequence a campaign is settled at most once, and it has ended exactly when it has
  been settled once.
\<close>

theorem ended_once_total_reset_once:
  assumes "storage_kept token"
    and "s = run token cs (deployed t a)"
    and "s' = snd (perform token c s)"
    and "out = fst (perform token c s)"
  shows
    "(ended (campaigns s cid) \<longrightarrow> campaigns s' cid = campaigns s cid \<and> \<not> settled cid c out) \<and>
     (settled cid c out \<longrightarrow>
        \<not> ended (campaigns s cid) \<and> ended (campaigns s' cid) \<and>
        totalRaised (campaigns s' cid) = Enc64 (nextHandle s) 0) \<and>
     (\<not> settled cid c out \<longrightarrow>
        ended (campaigns s' cid) = ended (campaigns s cid) \<and>
        plain64 (totalRaised (campaigns s' cid)) =
          plain64 (totalRaised (campaigns s cid)) + raised_for cid (accepted token [c] s) \<and>
        unat (plain64 (totalRaised (campaigns s' cid))) =
          (unat (plain64 (totalRaised (campaigns s cid)))
           + unat (raised_for cid (accepted token [c] s))) mod 2 ^ 64 \<and>
        (raised_for cid (accepted token [c] s) = 0 \<longrightarrow>
           plain64 (totalRaised (campaigns s' cid)) = plain64 (totalRaised (campaigns s cid))) \<and>
        (unat (plain64 (totalRaised (campaigns s cid)))
           + unat (raised_for cid (accepted token [c] s)) < 2 ^ 64 \<longrightarrow>
           unat (plain64 (totalRaised (campaigns s cid)))
             \<le> unat (plain64 (totalRaised (campaigns s' cid))))) \<and>
     settlements token cid cs (deployed t a) \<le> 1 \<and>
     (ended (campaigns s cid) \<longleftrightarrow> settlements token cid cs (deployed t a) = 1)"
proof -
  have u: "unused_above s"
    unfolding assms(2) using unused_above_run[OF assms(1) unused_above_deployed] .
  have "\<not> ended (campaigns (deployed t a) cid)" by (simp add: deployed_def no_campaign_def)
  with settlements_from[OF assms(1) unused_above_deployed, of t a cid cs]
  have n: "settlements token cid cs (deployed t a) \<le> 1"
    "ended (campaigns s cid) \<longleftrightarrow> settlements token cid cs (deployed t a) = 1"
    unfolding assms(2) by simp_all
  have other: "ended (campaigns s' cid) = ended (campaigns s cid) \<and>
        plain64 (totalRaised (campaigns s' cid)) =
          plain64 (totalRaised (campaigns s cid)) + raised_for cid (accepted token [c] s) \<and>
        unat (plain64 (totalRaised (campaigns s' cid))) =
          (unat (plain64 (totalRaised (campaigns s cid)))
           + unat (raised_for cid (accepted token [c] s))) mod 2 ^ 64 \<and>
        (raised_for cid (accepted token [c] s) = 0 \<longrightarrow>
           plain64 (totalRaised (campaigns s' cid)) = plain64 (totalRaised (campaigns s cid))) \<and>
        (unat (plain64 (totalRaised (campaigns s cid)))
           + unat (raised_for cid (accepted token [c] s)) < 2 ^ 64 \<longrightarrow>
           unat (plain64 (totalRaised (campaigns s cid)))
             \<le> unat (plain64 (totalRaised (campaigns s' cid))))"
    if "\<not> settled cid c out"
  proof -
    from step_unsettled[OF assms(1) u, of cid c] that
    have st: "ended (campaigns s' cid) = ended (campaigns s cid)"
      "plain64 (totalRaised (campaigns s' cid)) =
          plain64 (totalRaised (campaigns s cid)) + raised_for cid (accepted token [c] s)"
      unfolding assms(3,4) by blast+
    show ?thesis
      unfolding st(2) using st(1) unat_plus_mod64 unat_plus_no_wrap by simp
  qed
  show ?thesis
    using step_ended[OF assms(1) u, of cid c] step_settled[OF assms(1), of cid c s] other n
    unfolding assms(3,4)
    by blast
qed

lemma settled_pledge: "\<not> settled 1 pledge out"
  by (simp add: pledge_def)

theorem ended_once_total_reset_once_witness:
  "storage_kept confidentialTransfer \<and>
   fst (perform confidentialTransfer close (run confidentialTransfer [launch, pledge] (deployed 7 9)))
     = Paid (Enc64 8 0) \<and>
   settled 1 close (fst (perform confidentialTransfer close
     (run confidentialTransfer [launch, pledge] (deployed 7 9)))) \<and>
   \<not> ended (campaigns (run confidentialTransfer [launch, pledge] (deployed 7 9)) 1) \<and>
   ended (campaigns (snd (perform confidentialTransfer close
     (run confidentialTransfer [launch, pledge] (deployed 7 9)))) 1) \<and>
   totalRaised (campaigns (snd (perform confidentialTransfer close
     (run confidentialTransfer [launch, pledge] (deployed 7 9)))) 1) = Enc64 7 0 \<and>
   \<not> settled 1 pledge (fst (perform confidentialTransfer pledge
     (run confidentialTransfer [launch, pledge] (deployed 7 9)))) \<and>
   unat (plain64 (totalRaised (campaigns (snd (perform confidentialTransfer pledge
     (run confidentialTransfer [launch, pledge] (deployed 7 9)))) 1))) = 1500 \<and>
   settlements confidentialTransfer 1 [launch, pledge, close, close] (deployed 7 9) = 1 \<and>
   ended (campaigns (run confidentialTransfer [launch, pledge, close, close] (deployed 7 9)) 1)"
  using ended_once_total_reset_once
          [OF confidentialTransfer_kept refl refl refl, of "[launch, pledge]" 7 9 1 close]
        ended_once_total_reset_once
          [OF confidentialTransfer_kept refl refl refl, of "[launch, pledge]" 7 9 1 pledge]
        ended_once_total_reset_once
          [OF confidentialTransfer_kept refl refl refl, of "[launch, pledge, close, close]" 7 9 1 close]
        confidentialTransfer_kept
  by (simp add: launched funded closed reclosed pledged_again settled_close after_close_state
        after_pledge_state after_second_pledge_state settled_pledge scenario_contributions
        raised_for_def)

text \<open>
  C4 as stated fails: in the state reached by creating campaign 1 and accepting a
  contribution of \<open>2 ^ 64 - 1\<close>, the accepted contribution of 1, which is no settlement,
  takes the decrypted \<open>totalRaised\<close> of the campaign, which has not ended, from
  \<open>2 ^ 64 - 1\<close> down to 0.
\<close>

theorem total_decreases_counterexample:
  "run confidentialTransfer [launch, pledge_max] (deployed 7 9) = after_max \<and>
   \<not> ended (campaigns after_max 1) \<and>
   unat (plain64 (totalRaised (campaigns after_max 1))) = 18446744073709551615 \<and>
   fst (perform confidentialTransfer pledge_one after_max) = Accepted (EncB 9 True) \<and>
   \<not> ended (campaigns (snd (perform confidentialTransfer pledge_one after_max)) 1) \<and>
   unat (plain64 (totalRaised
     (campaigns (snd (perform confidentialTransfer pledge_one after_max)) 1))) = 0"
  by (simp add: launched maxed wrapped after_max_state after_wrap_state)

subsection \<open>What a settlement leaves alone\<close>

text \<open>
  C9, as the code has it. A successful \<open>endCampaign\<close>, with a token that does not write
  this contract's storage, changes in that storage only the \<open>ended\<close> flag and \<open>totalRaised\<close>
  of its campaign: the counter, every contribution entry, the campaign's name, target,
  deadline and creator and every other campaign's record are as before. Over any call at
  all, a contribution entry is either left as it is or, by an accepted contribution of that
  account to that campaign, replaced by an initialised ciphertext of the old value plus the
  amount, added as 64-bit values: the new value is not below the old one when the sum fits
  64 bits. An initialised entry stays initialised.
\<close>

theorem settlement_frame:
  assumes "storage_kept token"
    and "s' = snd (perform token c s)"
    and "out = fst (perform token c s)"
  shows
    "(\<forall>e cid p. c = EndCampaign e cid \<and> out = Paid p \<longrightarrow>
        contributions s' = contributions s \<and> campaignCount s' = campaignCount s \<and>
        (\<forall>cid'. cid' \<noteq> cid \<longrightarrow> campaigns s' cid' = campaigns s cid') \<and>
        name (campaigns s' cid) = name (campaigns s cid) \<and>
        target (campaigns s' cid) = target (campaigns s cid) \<and>
        deadline (campaigns s' cid) = deadline (campaigns s cid) \<and>
        creator (campaigns s' cid) = creator (campaigns s cid) \<and>
        campaigns s' cid = (campaigns s cid)\<lparr>ended := True, totalRaised := Enc64 (nextHandle s) 0\<rparr>) \<and>
     (contributions s' cid who = contributions s cid who \<or>
      (\<exists>e operator amount data b.
         c = OnConfidentialTransferReceived e operator who amount data \<and>
         abi_decode_uint256 data = Some cid \<and> out = Accepted b \<and>
         isInitialized (contributions s' cid who) \<and>
         plain64 (contributions s' cid who) = plain64 (contributions s cid who) + plain64 amount \<and>
         unat (plain64 (contributions s' cid who)) =
           (unat (plain64 (contributions s cid who)) + unat (plain64 amount)) mod 2 ^ 64 \<and>
         (unat (plain64 (contributions s cid who)) + unat (plain64 amount) < 2 ^ 64 \<longrightarrow>
            unat (plain64 (contributions s cid who)) \<le> unat (plain64 (contributions s' cid who))))) \<and>
     (isInitialized (contributions s cid who) \<longrightarrow> isInitialized (contributions s' cid who))"
proof -
  have frame: "contributions s' = contributions s \<and> campaignCount s' = campaignCount s \<and>
        (\<forall>cid'. cid' \<noteq> cid \<longrightarrow> campaigns s' cid' = campaigns s cid') \<and>
        name (campaigns s' cid) = name (campaigns s cid) \<and>
        target (campaigns s' cid) = target (campaigns s cid) \<and>
        deadline (campaigns s' cid) = deadline (campaigns s cid) \<and>
        creator (campaigns s' cid) = creator (campaigns s cid) \<and>
        campaigns s' cid = (campaigns s cid)\<lparr>ended := True, totalRaised := Enc64 (nextHandle s) 0\<rparr>"
    if "c = EndCampaign e cid" "out = Paid p" for e cid p
  proof -
    from perform_Paid[of token c s p] that assms(2,3)
    have c: "fst (endCampaign token e cid s) = Inr p" "s' = snd (endCampaign token e cid s)" by auto
    show ?thesis unfolding c(2) using endCampaign_Inr(4,5,6)[OF assms(1) c(1)] by simp
  qed
  have entry: "contributions s' cid who = contributions s cid who \<or>
      (\<exists>e operator amount data b.
         c = OnConfidentialTransferReceived e operator who amount data \<and>
         abi_decode_uint256 data = Some cid \<and> out = Accepted b \<and>
         isInitialized (contributions s' cid who) \<and>
         plain64 (contributions s' cid who) = plain64 (contributions s cid who) + plain64 amount \<and>
         unat (plain64 (contributions s' cid who)) =
           (unat (plain64 (contributions s cid who)) + unat (plain64 amount)) mod 2 ^ 64 \<and>
         (unat (plain64 (contributions s cid who)) + unat (plain64 amount) < 2 ^ 64 \<longrightarrow>
            unat (plain64 (contributions s cid who)) \<le> unat (plain64 (contributions s' cid who))))"
    using assms(1)
  proof (cases rule: perform_cases[where c=c and s=s])
    case (Failed err)
    then show ?thesis using assms(2) by simp
  next
    case (Created e nm tgt dl)
    then show ?thesis using assms(2) by simp
  next
    case (Accepted e operator "from" amt data cid' b)
    show ?thesis
    proof (cases "cid' = cid \<and> from = who")
      case True
      have new: "isInitialized (contributions s' cid who)"
        "plain64 (contributions s' cid who) = plain64 (contributions s cid who) + plain64 amt"
        using True Accepted(7) assms(2) by (simp_all add: isInitialized_def)
      have "unat (plain64 (contributions s' cid who)) =
           (unat (plain64 (contributions s cid who)) + unat (plain64 amt)) mod 2 ^ 64"
        "unat (plain64 (contributions s cid who)) + unat (plain64 amt) < 2 ^ 64 \<longrightarrow>
            unat (plain64 (contributions s cid who)) \<le> unat (plain64 (contributions s' cid who))"
        unfolding new(2) using unat_plus_mod64 unat_plus_no_wrap by simp_all
      then show ?thesis using True Accepted(1,2,3) assms(3) new by blast
    next
      case False
      then have "contributions s' cid who = contributions s cid who"
        using Accepted(7) assms(2) by auto
      then show ?thesis by simp
    qed
  next
    case (Paid e cid' p)
    then show ?thesis using assms(2) by simp
  qed
  have init: "isInitialized (contributions s' cid who)" if "isInitialized (contributions s cid who)"
    using entry that by auto
  show ?thesis using frame entry init by blast
qed

lemma after_pledge_name: "name (campaigns after_pledge 1) = ''Test Launch''"
  by (simp add: after_pledge_eq)

theorem settlement_frame_witness:
  "storage_kept confidentialTransfer \<and>
   fst (perform confidentialTransfer close after_pledge) = Paid (Enc64 8 0) \<and>
   contributions after_close = contributions after_pledge \<and>
   contributions after_close 1 2 = Enc64 5 750 \<and>
   name (campaigns after_close 1) = ''Test Launch'' \<and>
   creator (campaigns after_close 1) = 1 \<and>
   fst (perform confidentialTransfer pledge after_pledge) = Accepted (EncB 9 True) \<and>
   unat (plain64 (contributions after_pledge 1 2)) = 750 \<and>
   unat (plain64 (contributions after_second_pledge 1 2)) = 1500 \<and>
   isInitialized (contributions after_second_pledge 1 2)"
  using settlement_frame [where c=close and s=after_pledge and cid=1 and who=2,
          OF confidentialTransfer_kept refl refl]
        settlement_frame [where c=pledge and s=after_pledge and cid=1 and who=2,
          OF confidentialTransfer_kept refl refl]
        confidentialTransfer_kept
  unfolding pledged_again closed
  by (simp add: close_def pledge_def decode_one after_pledge_state after_pledge_name
        after_second_pledge_state isInitialized_def)

text \<open>
  C9 as stated fails: with the contributor's entry for campaign 1 at \<open>2 ^ 64 - 1\<close>, an
  accepted contribution of 1 by the same contributor takes the decrypted entry down to 0.
\<close>

theorem entry_decreases_counterexample:
  "unat (plain64 (contributions after_max 1 2)) = 18446744073709551615 \<and>
   fst (perform confidentialTransfer pledge_one after_max) = Accepted (EncB 9 True) \<and>
   contribution_of pledge_one (Accepted (EncB 9 True)) = Some (1, 2, 1) \<and>
   unat (plain64 (contributions (snd (perform confidentialTransfer pledge_one after_max)) 1 2)) = 0"
  by (simp add: wrapped after_max_state after_wrap_state overflow_contributions)

subsection \<open>Permissions\<close>

lemma perform_create_succeeds:
  assumes "nm \<noteq> []" "tgt \<noteq> 0" "block_timestamp e < dl" "campaignCount s \<noteq> - 1"
  shows "fst (perform L (CreateCampaign e nm tgt dl) s) = Created (campaignCount s + 1)"
  using assms
  by (auto simp add: createCampaign_def transact_def Let_def fhe_defs word_neq_0_conv
           split: prod.splits)

lemma perform_callback_succeeds:
  assumes "msg_sender e = paymentToken s" "abi_decode_uint256 data = Some cid"
    "creator (campaigns s cid) \<noteq> 0" "\<not> ended (campaigns s cid)"
    "block_timestamp e \<le> deadline (campaigns s cid)"
  shows "fst (perform L (OnConfidentialTransferReceived e operator from amt data) s)
           = Accepted (fst (contribute e cid from amt s))"
  using assms
  by (auto simp add: onConfidentialTransferReceived_def transact_def Let_def split: prod.splits)

lemma perform_end_succeeds:
  assumes "fst (L (self s) (msg_sender e) (totalRaised (campaigns s cid)) (snd (settle e cid s))) = Inr p"
    and "creator (campaigns s cid) \<noteq> 0"
    and "msg_sender e = creator (campaigns s cid)" and "\<not> ended (campaigns s cid)"
  shows "fst (perform L (EndCampaign e cid) s) = Paid p"
proof -
  have "fst (endCampaign L e cid s) = Inr p"
    using endCampaign_returns[where L=L and s=s and e=e and cid=cid and p=p] assms by blast
  then show ?thesis by (cases "endCampaign L e cid s") (simp add: transact_def)
qed

lemma payout_grant_contract:
  assumes "storage_kept L" and "fst (perform L (EndCampaign e cid) s) = Paid p"
    and "s' = snd (perform L (EndCampaign e cid) s)"
  shows "isAllowed s' (handle64 (totalRaised (campaigns s cid))) (self s)"
proof -
  from perform_Paid[OF assms(2)] assms(3)
  have c: "fst (endCampaign L e cid s) = Inr p" "s' = snd (endCampaign L e cid s)" by auto
  show ?thesis
    unfolding isAllowed_def c(2)
    using endCampaign_Inr(7)[OF assms(1) c(1)] by auto
qed

text \<open>
  C8. Every call leaves all earlier permissions in place, given a token that revokes none.
  A \<open>createCampaign\<close> with valid arguments succeeds, and a successful one lets the creator
  and this contract decrypt the stored target and the stored zero total. A callback of the
  token for an existing campaign that has not ended and whose deadline has not passed is
  accepted, and an accepted contribution lets this contract, the campaign's creator and the
  contributor decrypt the new total, and this contract and the contributor decrypt the
  contributor's new entry. An \<open>endCampaign\<close> by the creator of an existing campaign that
  has not ended succeeds when the token's transfer returns, and a successful one lets the
  creator, who is the caller, and this contract decrypt the total captured as the payout,
  whatever the permission table held before.
\<close>

theorem permissions_granted:
  assumes "storage_kept token"
    and "s' = snd (perform token c s)"
    and "out = fst (perform token c s)"
  shows
    "acl s \<subseteq> acl s' \<and>
     (\<forall>e nm tgt dl cid. c = CreateCampaign e nm tgt dl \<and> out = Created cid \<longrightarrow>
        isAllowed s' (handle64 (target (campaigns s' cid))) (msg_sender e) \<and>
        isAllowed s' (handle64 (target (campaigns s' cid))) (self s) \<and>
        isAllowed s' (handle64 (totalRaised (campaigns s' cid))) (msg_sender e) \<and>
        isAllowed s' (handle64 (totalRaised (campaigns s' cid))) (self s) \<and>
        creator (campaigns s' cid) = msg_sender e \<and>
        plain64 (target (campaigns s' cid)) = tgt \<and>
        plain64 (totalRaised (campaigns s' cid)) = 0) \<and>
     (\<forall>e operator from amount data cid b.
        c = OnConfidentialTransferReceived e operator from amount data \<and>
        abi_decode_uint256 data = Some cid \<and> out = Accepted b \<longrightarrow>
        isAllowed s' (handle64 (totalRaised (campaigns s' cid))) (self s) \<and>
        isAllowed s' (handle64 (totalRaised (campaigns s' cid))) (creator (campaigns s' cid)) \<and>
        isAllowed s' (handle64 (totalRaised (campaigns s' cid))) from \<and>
        isAllowed s' (handle64 (contributions s' cid from)) (self s) \<and>
        isAllowed s' (handle64 (contributions s' cid from)) from) \<and>
     (\<forall>e cid p. c = EndCampaign e cid \<and> out = Paid p \<longrightarrow>
        isAllowed s' (handle64 (totalRaised (campaigns s cid))) (creator (campaigns s cid)) \<and>
        isAllowed s' (handle64 (totalRaised (campaigns s cid))) (self s) \<and>
        msg_sender e = creator (campaigns s cid)) \<and>
     (\<forall>e nm tgt dl. c = CreateCampaign e nm tgt dl \<and> nm \<noteq> [] \<and> tgt \<noteq> 0 \<and>
        block_timestamp e < dl \<and> campaignCount s \<noteq> - 1 \<longrightarrow>
        out = Created (campaignCount s + 1)) \<and>
     (\<forall>e operator from amount data cid.
        c = OnConfidentialTransferReceived e operator from amount data \<and>
        msg_sender e = paymentToken s \<and> abi_decode_uint256 data = Some cid \<and>
        creator (campaigns s cid) \<noteq> 0 \<and> \<not> ended (campaigns s cid) \<and>
        block_timestamp e \<le> deadline (campaigns s cid) \<longrightarrow>
        (\<exists>b. out = Accepted b)) \<and>
     (\<forall>e cid p. c = EndCampaign e cid \<and> creator (campaigns s cid) \<noteq> 0 \<and>
        msg_sender e = creator (campaigns s cid) \<and> \<not> ended (campaigns s cid) \<and>
        fst (token (self s) (msg_sender e) (totalRaised (campaigns s cid))
               (snd (settle e cid s))) = Inr p \<longrightarrow>
        out = Paid p)"
proof -
  have mono: "acl s \<subseteq> acl s'" unfolding assms(2) by (rule perform_acl[OF assms(1)])
  have grants: "(\<forall>e nm tgt dl cid. c = CreateCampaign e nm tgt dl \<and> out = Created cid \<longrightarrow>
        isAllowed s' (handle64 (target (campaigns s' cid))) (msg_sender e) \<and>
        isAllowed s' (handle64 (target (campaigns s' cid))) (self s) \<and>
        isAllowed s' (handle64 (totalRaised (campaigns s' cid))) (msg_sender e) \<and>
        isAllowed s' (handle64 (totalRaised (campaigns s' cid))) (self s) \<and>
        creator (campaigns s' cid) = msg_sender e \<and>
        plain64 (target (campaigns s' cid)) = tgt \<and>
        plain64 (totalRaised (campaigns s' cid)) = 0) \<and>
     (\<forall>e operator from amount data cid b.
        c = OnConfidentialTransferReceived e operator from amount data \<and>
        abi_decode_uint256 data = Some cid \<and> out = Accepted b \<longrightarrow>
        isAllowed s' (handle64 (totalRaised (campaigns s' cid))) (self s) \<and>
        isAllowed s' (handle64 (totalRaised (campaigns s' cid))) (creator (campaigns s' cid)) \<and>
        isAllowed s' (handle64 (totalRaised (campaigns s' cid))) from \<and>
        isAllowed s' (handle64 (contributions s' cid from)) (self s) \<and>
        isAllowed s' (handle64 (contributions s' cid from)) from) \<and>
     (\<forall>e cid p. c = EndCampaign e cid \<and> out = Paid p \<longrightarrow>
        isAllowed s' (handle64 (totalRaised (campaigns s cid))) (creator (campaigns s cid)) \<and>
        isAllowed s' (handle64 (totalRaised (campaigns s cid))) (self s) \<and>
        msg_sender e = creator (campaigns s cid))"
    using create_grants[of token _ _ _ _ s _ s']
      contribution_grants[of token _ _ _ _ _ s _ _ s'] payout_grant[OF assms(1), of _ _ s _ s']
      payout_grant_contract[OF assms(1), of _ _ s _ s'] assms(2,3)
    by blast
  have succeeds: "(\<forall>e nm tgt dl. c = CreateCampaign e nm tgt dl \<and> nm \<noteq> [] \<and> tgt \<noteq> 0 \<and>
        block_timestamp e < dl \<and> campaignCount s \<noteq> - 1 \<longrightarrow>
        out = Created (campaignCount s + 1)) \<and>
     (\<forall>e operator from amount data cid.
        c = OnConfidentialTransferReceived e operator from amount data \<and>
        msg_sender e = paymentToken s \<and> abi_decode_uint256 data = Some cid \<and>
        creator (campaigns s cid) \<noteq> 0 \<and> \<not> ended (campaigns s cid) \<and>
        block_timestamp e \<le> deadline (campaigns s cid) \<longrightarrow>
        (\<exists>b. out = Accepted b)) \<and>
     (\<forall>e cid p. c = EndCampaign e cid \<and> creator (campaigns s cid) \<noteq> 0 \<and>
        msg_sender e = creator (campaigns s cid) \<and> \<not> ended (campaigns s cid) \<and>
        fst (token (self s) (msg_sender e) (totalRaised (campaigns s cid))
               (snd (settle e cid s))) = Inr p \<longrightarrow>
        out = Paid p)"
    using perform_create_succeeds[where L=token and s=s]
      perform_callback_succeeds[where L=token and s=s]
      perform_end_succeeds[where L=token and s=s] assms(3)
    by blast
  note g = grants[THEN conjunct1] grants[THEN conjunct2, THEN conjunct1]
    grants[THEN conjunct2, THEN conjunct2]
  note sc = succeeds[THEN conjunct1] succeeds[THEN conjunct2, THEN conjunct1]
    succeeds[THEN conjunct2, THEN conjunct2]
  show ?thesis
    by (intro conjI) (rule mono g sc)+
qed


lemma scenario_acl:
  "acl (deployed t a) = {}"
  "acl after_launch = {(1, 9), (1, 1), (2, 9), (2, 1)}"
  "handle64 (totalRaised (campaigns unshared 1)) = 3"
  by (simp_all add: deployed_def after_launch_eq unshared_state)

theorem permissions_granted_witness:
  "storage_kept confidentialTransfer \<and>
   fst (perform confidentialTransfer launch (deployed 7 9)) = Created 1 \<and>
   \<not> isAllowed (deployed 7 9) 1 1 \<and> \<not> isAllowed (deployed 7 9) 2 1 \<and>
   isAllowed after_launch 1 1 \<and> isAllowed after_launch 1 9 \<and>
   isAllowed after_launch 2 1 \<and> isAllowed after_launch 2 9 \<and>
   fst (perform confidentialTransfer pledge after_launch) = Accepted (EncB 6 True) \<and>
   \<not> isAllowed after_launch 3 1 \<and> \<not> isAllowed after_launch 5 2 \<and>
   isAllowed after_pledge 3 9 \<and> isAllowed after_pledge 3 1 \<and> isAllowed after_pledge 3 2 \<and>
   isAllowed after_pledge 5 9 \<and> isAllowed after_pledge 5 2 \<and>
   fst (perform confidentialTransfer close after_pledge) = Paid (Enc64 8 0) \<and>
   isAllowed after_close 3 1 \<and> acl after_pledge \<subseteq> acl after_close \<and>
   fst (perform confidentialTransfer close unshared) = Paid (Enc64 8 0) \<and>
   handle64 (totalRaised (campaigns unshared 1)) = 3 \<and>
   \<not> isAllowed unshared 3 1 \<and> \<not> isAllowed unshared 3 9 \<and>
   isAllowed (snd (perform confidentialTransfer close unshared)) 3 1 \<and>
   isAllowed (snd (perform confidentialTransfer close unshared)) 3 9"
proof -
  note k = confidentialTransfer_kept
  have a: "isAllowed after_launch 1 1 \<and> isAllowed after_launch 1 9 \<and>
           isAllowed after_launch 2 1 \<and> isAllowed after_launch 2 9"
    using permissions_granted [where c=launch and s="deployed 7 9", OF k refl refl,
            THEN conjunct2, THEN conjunct1]
    unfolding launched
    by (simp add: launch_def deployed_state after_launch_state)
  have b: "isAllowed after_pledge 3 9 \<and> isAllowed after_pledge 3 1 \<and> isAllowed after_pledge 3 2 \<and>
           isAllowed after_pledge 5 9 \<and> isAllowed after_pledge 5 2"
    using permissions_granted [where c=pledge and s=after_launch, OF k refl refl,
            THEN conjunct2, THEN conjunct2, THEN conjunct1]
    unfolding funded
    by (simp add: pledge_def decode_one after_launch_state after_pledge_state)
  have c: "isAllowed after_close 3 1"
    using permissions_granted [where c=close and s=after_pledge, OF k refl refl,
            THEN conjunct2, THEN conjunct2, THEN conjunct2, THEN conjunct1]
    unfolding closed
    by (simp add: close_def after_pledge_state)
  have c': "acl after_pledge \<subseteq> acl after_close"
    using permissions_granted [where c=close and s=after_pledge, OF k refl refl, THEN conjunct1]
    unfolding closed by simp
  have d: "isAllowed (snd (perform confidentialTransfer close unshared)) 3 1 \<and>
           isAllowed (snd (perform confidentialTransfer close unshared)) 3 9"
    using permissions_granted [where c=close and s=unshared, OF k refl refl,
            THEN conjunct2, THEN conjunct2, THEN conjunct2, THEN conjunct1]
    unfolding unshared_close_evaluated
    by (simp add: close_def unshared_state)
  have n: "\<not> isAllowed (deployed 7 9) 1 1" "\<not> isAllowed (deployed 7 9) 2 1"
    "\<not> isAllowed after_launch 3 1" "\<not> isAllowed after_launch 5 2"
    "\<not> isAllowed unshared 3 1" "\<not> isAllowed unshared 3 9"
    by (simp_all add: isAllowed_def scenario_acl unshared_state)
  show ?thesis
    using a b c c' d n k
    by (simp add: launched funded closed unshared_close_evaluated scenario_acl)
qed

end
